theory Spec2Isabelle
  imports Main "HOL-Library.AList" "HOL-Library.Sublist"
begin

section \<open>The edge worker \<open>worker.js\<close>: data model\<close>

text \<open>
  The worker is one JavaScript module. Its module-level objects (\<open>CONFIG\<close>,
  \<open>connectionPool\<close>, \<open>rateLimiter\<close>, \<open>healthChecker\<close>) are the state of one running
  instance. The model passes that state explicitly. Conventions:
  \<^item> JavaScript numbers that hold counters, lengths and millisecond clock readings are
    modelled as unbounded \<open>nat\<close> or \<open>int\<close> (they are exact integers below \<open>2^53\<close>);
  \<^item> a JavaScript \<open>Map\<close> is an association list in insertion order with distinct keys:
    \<open>get\<close> is \<open>map_of\<close>, \<open>set\<close> is \<open>AList.update\<close> (overwrite in place, else append),
    \<open>delete\<close> is \<open>AList.delete\<close>, \<open>size\<close> is \<open>length\<close>;
  \<^item> what the runtime answers (the clock, \<open>fetch\<close>, \<open>caches.default\<close>) is an input of
    the operation, and the calls the worker makes to \<open>fetch\<close>, to the cache store and to
    the WebSocket and timer interfaces are appended to a log;
  \<^item> every handler is run to completion: handlers interleaved at their \<open>await\<close> points are
    not modelled.
\<close>

subsection \<open>JSON values\<close>

text \<open>
  What \<open>JSON.parse\<close> returns and \<open>JSON.stringify\<close> prints. An object is the list of its
  own properties (keys distinct after parsing). Numbers are integers in the model.
\<close>

datatype json =
    JNull
  | JBool bool
  | JNum int
  | JStr string
  | JArr "json list"
  | JObj "(string \<times> json) list"

subsection \<open>Header lists\<close>

text \<open>
  A \<open>Headers\<close> object is a list of name/value pairs. Names are matched without regard to
  ASCII case, and \<open>set\<close>/\<open>append\<close> store the lower-cased name.
\<close>

type_synonym headers = "(string \<times> string) list"

definition toLowerCase_char :: "char \<Rightarrow> char" where
  "toLowerCase_char c =
     (case map_of (zip ''ABCDEFGHIJKLMNOPQRSTUVWXYZ'' ''abcdefghijklmnopqrstuvwxyz'') c of
        Some l \<Rightarrow> l
      | None \<Rightarrow> c)"

definition toLowerCase :: "string \<Rightarrow> string" where
  "toLowerCase s = map toLowerCase_char s"

definition same_name :: "string \<Rightarrow> string \<Rightarrow> bool" where
  "same_name a b = (toLowerCase a = toLowerCase b)"

fun join_values :: "string list \<Rightarrow> string" where
  "join_values [] = []"
| "join_values [v] = v"
| "join_values (v # w # vs) = v @ '', '' @ join_values (w # vs)"

definition headers_has :: "headers \<Rightarrow> string \<Rightarrow> bool" where
  "headers_has hs name = (\<exists>h \<in> set hs. same_name (fst h) name)"

text \<open>\<open>headers.get(name)\<close>: \<open>None\<close> is JavaScript's \<open>null\<close>; several values are joined.\<close>

definition headers_get :: "headers \<Rightarrow> string \<Rightarrow> string option" where
  "headers_get hs name =
     (let vs = map snd (filter (\<lambda>h. same_name (fst h) name) hs)
      in if vs = [] then None else Some (join_values vs))"

definition headers_delete :: "headers \<Rightarrow> string \<Rightarrow> headers" where
  "headers_delete hs name = filter (\<lambda>h. \<not> same_name (fst h) name) hs"

text \<open>
  \<open>headers.set(name, value)\<close>: the first header of that name gets the value and the
  others of that name are removed; without one, the header is appended.
\<close>

fun headers_set :: "headers \<Rightarrow> string \<Rightarrow> string \<Rightarrow> headers" where
  "headers_set [] name v = [(toLowerCase name, v)]"
| "headers_set (h # hs) name v =
     (if same_name (fst h) name then (fst h, v) # headers_delete hs name
      else h # headers_set hs name v)"

text \<open>\<open>new Headers(init)\<close> copies the list; the copy is independent of \<open>init\<close>.\<close>

definition new_Headers :: "headers \<Rightarrow> headers" where
  "new_Headers init = map (\<lambda>h. (toLowerCase (fst h), snd h)) init"

text \<open>\<open>x || d\<close> for a nullable string \<open>x\<close>: \<open>null\<close> and the empty string are falsy.\<close>

definition or_default :: "string option \<Rightarrow> string \<Rightarrow> string" where
  "or_default x d = (case x of None \<Rightarrow> d | Some s \<Rightarrow> if s = [] then d else s)"

subsection \<open>Configuration\<close>

text \<open>
  \<open>CONFIG\<close>. The backend list is mutable state (the \<open>healthy\<close> flags) and lives in the
  instance state below; the rest is read only. Only the entries the code reads are kept.
\<close>

record backend =
  url :: string
  priority :: int
  region :: string
  healthy :: bool

record websocket_config =
  keepAliveInterval :: int

record cache_config =
  ttl :: nat
  bypassPaths :: "string list"

record rateLimit_config =
  enabled :: bool
  requestsPerMinute :: int
  windowMs :: int

record optimization_config =
  keepAlive :: bool
  compression :: bool
  http2 :: bool

record config =
  websocket :: websocket_config
  cache :: cache_config
  rateLimit :: rateLimit_config
  optimization :: optimization_config

subsection \<open>Requests, responses and the instance state\<close>

datatype body = Empty | Text string | Json json

text \<open>
  A request as the handler reads it: \<open>pathname\<close> and \<open>search\<close> are those of
  \<open>new URL(request.url)\<close>. \<open>Json j\<close> is the body text \<open>JSON.stringify(j)\<close>.
\<close>

record request =
  req_method :: string
  pathname :: string
  search :: string
  headers :: headers
  req_body :: body

record response =
  status :: nat
  statusText :: string
  resp_headers :: headers
  resp_body :: body
  webSocket :: "nat option"

record metrics =
  activeConnections :: nat
  totalRequests :: nat
  cacheHits :: nat
  cacheMisses :: nat

text \<open>\<open>RateLimiter.requests\<close>: client id to the timestamps recorded for it.\<close>

type_synonym request_table = "(string \<times> int list) list"

text \<open>
  A WebSocket session made by \<open>handleWebSocket\<close>: whether its keep-alive interval is
  still set, and what \<open>server.send\<close> has sent.
\<close>

record session =
  keepAliveTimer :: bool
  sent :: "json list"

text \<open>The URL of a \<open>fetch\<close>: a string, or \<open>new URL(relative, base)\<close>.\<close>

datatype url_ref = Plain string | Relative string string

text \<open>The logged calls to the runtime.\<close>

datatype runtime_call =
    CacheMatch request
  | CachePut request response
  | Fetch url_ref string headers body
  | NewWebSocketPair
  | SetInterval int

text \<open>
  The state of one running instance: \<open>CONFIG.backends\<close>, the connection pool with its
  metrics, the rate limiter's table, the health checker's table, the open WebSocket
  sessions, and the log of runtime calls (oldest first).
\<close>

record worker_state =
  backends :: "backend list"
  connections :: "(string \<times> string) list"
  metrics :: metrics
  requests :: request_table
  healthStatus :: "(string \<times> bool) list"
  sessions :: "session list"
  calls :: "runtime_call list"

definition log_call :: "runtime_call \<Rightarrow> worker_state \<Rightarrow> worker_state" where
  "log_call c w = w\<lparr>calls := calls w @ [c]\<rparr>"

text \<open>\<open>Number.prototype.toString\<close> on an integer.\<close>

fun nat_to_string :: "nat \<Rightarrow> string" where
  "nat_to_string n =
     (if n < 10 then [''0123456789'' ! n]
      else nat_to_string (n div 10) @ [''0123456789'' ! (n mod 10)])"

declare nat_to_string.simps [simp del]

definition int_to_string :: "int \<Rightarrow> string" where
  "int_to_string i = (if i < 0 then CHR ''-'' # nat_to_string (nat (- i)) else nat_to_string (nat i))"

section \<open>Connection pool\<close>

text \<open>
  The two mutating methods of \<open>ConnectionPool\<close>. The module has no call of either, and
  the pool is not exported, so they are not among the operations of an instance below.
\<close>

definition setConnection :: "string \<Rightarrow> string \<Rightarrow> worker_state \<Rightarrow> worker_state" where
  "setConnection key connection w =
     (let conns = AList.update key connection (connections w)
      in w\<lparr>connections := conns,
           metrics := (metrics w)\<lparr>activeConnections := length conns\<rparr>\<rparr>)"

definition removeConnection :: "string \<Rightarrow> worker_state \<Rightarrow> worker_state" where
  "removeConnection key w =
     (let conns = AList.delete key (connections w)
      in w\<lparr>connections := conns,
           metrics := (metrics w)\<lparr>activeConnections := length conns\<rparr>\<rparr>)"

section \<open>Rate limiter\<close>

text \<open>
  \<open>checkLimit(clientId)\<close> with \<open>Date.now() = now\<close>. The result is the answer and the
  table afterwards. A denied request leaves the stored array as it was (the filtered
  copy is dropped).
\<close>

definition checkLimit ::
  "rateLimit_config \<Rightarrow> int \<Rightarrow> string \<Rightarrow> request_table \<Rightarrow> bool \<times> request_table" where
  "checkLimit rl now clientId tbl =
     (if \<not> enabled rl then (True, tbl)
      else
        let windowStart = now - windowMs rl;
            requests = (case map_of tbl clientId of None \<Rightarrow> [] | Some ts \<Rightarrow> ts);
            requests = filter (\<lambda>timestamp. timestamp > windowStart) requests
        in if int (length requests) \<ge> requestsPerMinute rl then (False, tbl)
           else (True, AList.update clientId (requests @ [now]) tbl))"

text \<open>
  \<open>cleanup()\<close> with \<open>Date.now() = now\<close>: one pass over the entries. Deleting the entry
  under the iterator and overwriting an existing key do not disturb a \<open>Map\<close> iteration,
  so the pass visits the entries the table had at the start, in order.
\<close>

definition cleanup_entry ::
  "rateLimit_config \<Rightarrow> int \<Rightarrow> string \<times> int list \<Rightarrow> request_table \<Rightarrow> request_table" where
  "cleanup_entry rl now e tbl =
     (let validRequests = filter (\<lambda>timestamp. timestamp > now - windowMs rl) (snd e)
      in if length validRequests = 0 then AList.delete (fst e) tbl
         else AList.update (fst e) validRequests tbl)"

definition cleanup :: "rateLimit_config \<Rightarrow> int \<Rightarrow> request_table \<Rightarrow> request_table" where
  "cleanup rl now tbl = fold (cleanup_entry rl now) tbl tbl"

text \<open>A run of \<open>checkLimit\<close> calls for one client at the given clock readings.\<close>

fun checkLimit_run ::
  "rateLimit_config \<Rightarrow> string \<Rightarrow> int list \<Rightarrow> request_table \<Rightarrow> bool list \<times> request_table" where
  "checkLimit_run rl clientId [] tbl = ([], tbl)"
| "checkLimit_run rl clientId (now # later) tbl =
     (let (allowed, tbl') = checkLimit rl now clientId tbl;
          (rest, tbl'') = checkLimit_run rl clientId later tbl'
      in (allowed # rest, tbl''))"

section \<open>Health checker\<close>

text \<open>
  \<open>updateHealthStatus()\<close>: the backends are probed in order. \<open>probe i\<close> is what
  \<open>checkHealth\<close> returns for the backend at position \<open>i\<close>: \<open>response.ok\<close> of the
  \<open>HEAD\<close> request, and false when the request fails or is aborted by the timeout.
\<close>

definition updateHealthStatus_step :: "(nat \<Rightarrow> bool) \<Rightarrow> nat \<Rightarrow> worker_state \<Rightarrow> worker_state" where
  "updateHealthStatus_step probe i w =
     (let b = backends w ! i;
          w1 = log_call (Fetch (Plain (url b @ ''/health'')) ''HEAD'' [] Empty) w;
          is_healthy = probe i
      in w1\<lparr>backends := (backends w1)[i := b\<lparr>healthy := is_healthy\<rparr>],
            healthStatus := AList.update (url b) is_healthy (healthStatus w1)\<rparr>)"

definition updateHealthStatus :: "(nat \<Rightarrow> bool) \<Rightarrow> worker_state \<Rightarrow> worker_state" where
  "updateHealthStatus probe w =
     fold (updateHealthStatus_step probe) [0 ..< length (backends w)] w"

text \<open>
  \<open>getHealthyBackends()\<close>: the healthy backends by ascending priority, in registration
  order among equal priorities (\<open>Array.prototype.sort\<close> is stable, as \<open>sort_key\<close> is).
  Each backend comes with its position in \<open>CONFIG.backends\<close>, which stands for the
  object reference the JavaScript returns.
\<close>

definition getHealthyBackends :: "backend list \<Rightarrow> (nat \<times> backend) list" where
  "getHealthyBackends bs =
     sort_key (\<lambda>p. priority (snd p)) (filter (\<lambda>p. healthy (snd p)) (enumerate 0 bs))"

section \<open>Smart router\<close>

text \<open>
  \<open>regions[country] || 'us-east'\<close>. The table is an object literal, so a key that it
  does not own but \<open>Object.prototype\<close> has yields that inherited member, which is
  truthy and not a string; it equals no backend's region.
\<close>

datatype region_value = Region string | Inherited string

definition regions :: "(string \<times> string) list" where
  "regions =
     [(''US'', ''us-east''), (''CA'', ''us-east''), (''GB'', ''eu-west''), (''DE'', ''eu-west''),
      (''FR'', ''eu-west''), (''JP'', ''ap-east''), (''CN'', ''ap-east''), (''AU'', ''ap-south'')]"

definition Object_prototype_keys :: "string list" where
  "Object_prototype_keys =
     [''constructor'', ''__defineGetter__'', ''__defineSetter__'', ''hasOwnProperty'',
      ''__lookupGetter__'', ''__lookupSetter__'', ''isPrototypeOf'', ''propertyIsEnumerable'',
      ''toString'', ''valueOf'', ''__proto__'', ''toLocaleString'']"

definition getRegionFromCountry :: "string \<Rightarrow> region_value" where
  "getRegionFromCountry country =
     (case map_of regions country of
        Some r \<Rightarrow> Region r
      | None \<Rightarrow> if country \<in> set Object_prototype_keys then Inherited country
                else Region ''us-east'')"

text \<open>
  \<open>selectBackend(request)\<close>. \<open>None\<close> is \<open>undefined\<close>, which \<open>CONFIG.backends[0]\<close> is for
  an empty registry.
\<close>

definition selectBackend :: "backend list \<Rightarrow> request \<Rightarrow> (nat \<times> backend) option" where
  "selectBackend bs request =
     (case getHealthyBackends bs of
        [] \<Rightarrow> (case bs of [] \<Rightarrow> None | b # _ \<Rightarrow> Some (0, b))
      | first # _ \<Rightarrow>
          (let clientCountry = or_default (headers_get (headers request) ''cf-ipcountry'') ''US'';
               clientRegion = getRegionFromCountry clientCountry
           in case find (\<lambda>p. Region (region (snd p)) = clientRegion) (getHealthyBackends bs) of
                Some regionalBackend \<Rightarrow> Some regionalBackend
              | None \<Rightarrow> Some first))"

section \<open>Request optimizer\<close>

definition optimizeHeaders :: "optimization_config \<Rightarrow> headers \<Rightarrow> headers" where
  "optimizeHeaders opt hs =
     (let optimized = new_Headers hs;
          optimized = headers_delete optimized ''cookie'';
          optimized = headers_delete optimized ''authorization'';
          optimized = (if compression opt
                       then headers_set optimized ''accept-encoding'' ''gzip, deflate, br''
                       else optimized);
          optimized = (if http2 opt then headers_set optimized ''upgrade'' ''h2'' else optimized);
          optimized = (if keepAlive opt
                       then headers_set (headers_set optimized ''connection'' ''keep-alive'')
                              ''keep-alive'' ''timeout=60, max=1000''
                       else optimized)
      in optimized)"

text \<open>\<open>optimizeRequest(request)\<close>: the same URL, method and body with the rewritten headers.\<close>

definition optimizeRequest :: "optimization_config \<Rightarrow> request \<Rightarrow> request" where
  "optimizeRequest opt request = request\<lparr>headers := optimizeHeaders opt (headers request)\<rparr>"

section \<open>Cache manager\<close>

definition shouldCache :: "cache_config \<Rightarrow> request \<Rightarrow> bool" where
  "shouldCache cc request =
     (if list_ex (\<lambda>path. prefix path (pathname request)) (bypassPaths cc) then False
      else if req_method request \<noteq> ''GET'' then False
      else True)"

definition bump_cacheHits :: "worker_state \<Rightarrow> worker_state" where
  "bump_cacheHits w = w\<lparr>metrics := (metrics w)\<lparr>cacheHits := cacheHits (metrics w) + 1\<rparr>\<rparr>"

definition bump_cacheMisses :: "worker_state \<Rightarrow> worker_state" where
  "bump_cacheMisses w = w\<lparr>metrics := (metrics w)\<lparr>cacheMisses := cacheMisses (metrics w) + 1\<rparr>\<rparr>"

text \<open>
  \<open>CacheManager.get(request)\<close>. \<open>answer\<close> is what \<open>caches.default.match\<close> does when it is
  called: \<open>Inl\<close> when it throws (logged, no counter moves), else the stored response or
  nothing.
\<close>

definition cacheManager_get ::
  "cache_config \<Rightarrow> string + response option \<Rightarrow> request \<Rightarrow> worker_state
     \<Rightarrow> response option \<times> worker_state" where
  "cacheManager_get cc answer request w =
     (if \<not> shouldCache cc request then (None, w)
      else
        let w1 = log_call (CacheMatch request) w
        in case answer of
             Inl err \<Rightarrow> (None, w1)
           | Inr (Some resp) \<Rightarrow> (Some resp, bump_cacheHits w1)
           | Inr None \<Rightarrow> (None, bump_cacheMisses w1))"

text \<open>
  \<open>new Response(body, init)\<close> throws a \<open>RangeError\<close> for a status outside 200..599.
\<close>

definition Response_status_ok :: "nat \<Rightarrow> bool" where
  "Response_status_ok st = (200 \<le> st \<and> st \<le> 599)"

text \<open>
  \<open>CacheManager.put(request, response)\<close>. Whatever is thrown inside its \<open>try\<close> (by the
  \<open>Response\<close> constructor or by \<open>caches.default.put\<close>) is logged and swallowed, so the
  outcome of the store call does not show in the state.
\<close>

definition cacheManager_put ::
  "cache_config \<Rightarrow> request \<Rightarrow> response \<Rightarrow> worker_state \<Rightarrow> worker_state" where
  "cacheManager_put cc request resp w =
     (if \<not> shouldCache cc request then w
      else
        let hs = new_Headers (resp_headers resp);
            hs = headers_set hs ''cache-control'' (''public, max-age='' @ nat_to_string (ttl cc));
            hs = headers_set hs ''x-cache-status'' ''HIT''
        in if \<not> Response_status_ok (status resp) then w
           else log_call (CachePut request (resp\<lparr>resp_headers := hs, webSocket := None\<rparr>)) w)"

section \<open>WebSocket sessions\<close>

text \<open>\<open>new Response(body, {status, headers})\<close> without a status text or a socket.\<close>

definition new_Response :: "body \<Rightarrow> nat \<Rightarrow> headers \<Rightarrow> response" where
  "new_Response b st hs =
     \<lparr>status = st, statusText = [], resp_headers = hs, resp_body = b, webSocket = None\<rparr>"

text \<open>
  \<open>handleWebSocket(request)\<close>. An accepted upgrade makes a \<open>WebSocketPair\<close>, sets the
  keep-alive interval and answers 101 with the client end; the new session's position
  in \<open>sessions\<close> names the pair.
\<close>

definition handleWebSocket :: "config \<Rightarrow> request \<Rightarrow> worker_state \<Rightarrow> response \<times> worker_state" where
  "handleWebSocket cfg request w =
     (let upgradeHeader = headers_get (headers request) ''Upgrade''
      in if (case upgradeHeader of None \<Rightarrow> True | Some u \<Rightarrow> u = [] \<or> u \<noteq> ''websocket'')
         then (new_Response (Text ''Expected WebSocket'') 426 [], w)
         else
           let w1 = log_call NewWebSocketPair w;
               w2 = log_call (SetInterval (keepAliveInterval (websocket cfg))) w1;
               w3 = w2\<lparr>sessions := sessions w2 @ [\<lparr>keepAliveTimer = True, sent = []\<rparr>]\<rparr>
           in (\<lparr>status = 101, statusText = [], resp_headers = [], resp_body = Empty,
                webSocket = Some (length (sessions w))\<rparr>, w3))"

definition server_send :: "nat \<Rightarrow> json \<Rightarrow> worker_state \<Rightarrow> worker_state" where
  "server_send sid msg w =
     (if sid < length (sessions w)
      then w\<lparr>sessions := (sessions w)[sid := (sessions w ! sid)\<lparr>sent := sent (sessions w ! sid) @ [msg]\<rparr>]\<rparr>
      else w)"

definition clearInterval :: "nat \<Rightarrow> worker_state \<Rightarrow> worker_state" where
  "clearInterval sid w =
     (if sid < length (sessions w)
      then w\<lparr>sessions := (sessions w)[sid := (sessions w ! sid)\<lparr>keepAliveTimer := False\<rparr>]\<rparr>
      else w)"

text \<open>
  The interval callback of session \<open>sid\<close>; it runs only while the interval is set.
  \<open>send_ok\<close> says whether \<open>server.send\<close> succeeds (it throws on a closed socket).
\<close>

definition keepAlive_tick :: "nat \<Rightarrow> int \<Rightarrow> bool \<Rightarrow> worker_state \<Rightarrow> worker_state" where
  "keepAlive_tick sid now send_ok w =
     (if sid < length (sessions w) \<and> keepAliveTimer (sessions w ! sid)
      then (if send_ok
            then server_send sid (JObj [(''type'', JStr ''ping''), (''timestamp'', JNum now)]) w
            else clearInterval sid w)
      else w)"

text \<open>
  The \<open>message\<close> listener. Reading a property of \<open>null\<close> throws; of any other parsed
  value it gives the own property of an object and \<open>undefined\<close> (\<open>None\<close>) otherwise
  (neither \<open>type\<close> nor \<open>timestamp\<close> is inherited by any parsed value).
\<close>

fun get_field :: "json \<Rightarrow> string \<Rightarrow> string + json option" where
  "get_field JNull key =
     Inl (''Cannot read properties of null (reading '' @ [CHR 0x27] @ key @ [CHR 0x27] @ '')'')"
| "get_field (JObj kvs) key = Inr (map_of kvs key)"
| "get_field v key = Inr None"

text \<open>
  \<open>Date.now() - x\<close> applies \<open>ToNumber\<close> to \<open>x\<close>. A parsed object has plain data as
  properties, so converting it to a primitive calls the inherited \<open>toString\<close> unless an
  own property \<open>toString\<close> hides it, in which case no method is callable and a
  \<open>TypeError\<close> is thrown; an array joins the strings of its elements, which throws when
  an element does.
\<close>

fun ToPrimitive_throws :: "json \<Rightarrow> bool" where
  "ToPrimitive_throws (JObj kvs) = (''toString'' \<in> set (map fst kvs))"
| "ToPrimitive_throws (JArr xs) = list_ex ToPrimitive_throws xs"
| "ToPrimitive_throws v = False"

text \<open>
  \<open>ToNumber\<close>: \<open>Inl\<close> is a thrown error, \<open>Inr None\<close> is \<open>NaN\<close>. The number that the
  string form of a string or an array denotes is given by \<open>string_number\<close>, a parameter of
  the model (ECMAScript's \<open>StringToNumber\<close>).
\<close>

fun ToNumber :: "(json \<Rightarrow> int option) \<Rightarrow> json option \<Rightarrow> string + int option" where
  "ToNumber string_number None = Inr None"
| "ToNumber string_number (Some JNull) = Inr (Some 0)"
| "ToNumber string_number (Some (JBool b)) = Inr (Some (if b then 1 else 0))"
| "ToNumber string_number (Some (JNum n)) = Inr (Some n)"
| "ToNumber string_number (Some (JStr s)) = Inr (string_number (JStr s))"
| "ToNumber string_number (Some (JArr xs)) =
     (if ToPrimitive_throws (JArr xs) then Inl ''Cannot convert object to primitive value''
      else Inr (string_number (JArr xs)))"
| "ToNumber string_number (Some (JObj kvs)) =
     (if ToPrimitive_throws (JObj kvs) then Inl ''Cannot convert object to primitive value''
      else Inr None)"

text \<open>\<open>JSON.stringify\<close> prints \<open>NaN\<close> as \<open>null\<close>.\<close>

definition number_json :: "int option \<Rightarrow> json" where
  "number_json n = (case n of None \<Rightarrow> JNull | Some k \<Rightarrow> JNum k)"

definition error_envelope :: "string \<Rightarrow> json" where
  "error_envelope msg = JObj [(''type'', JStr ''error''), (''error'', JStr msg)]"

text \<open>
  What the listener passes to \<open>server.send\<close> (\<open>None\<close>: nothing is sent). \<open>parsed\<close> is
  the outcome of \<open>JSON.parse(event.data)\<close>, \<open>Inl\<close> its error message; \<open>now1\<close> and \<open>now2\<close>
  are the two \<open>Date.now()\<close> readings of the object literal, in evaluation order.
\<close>

definition onMessage ::
  "(json \<Rightarrow> int option) \<Rightarrow> int \<Rightarrow> int \<Rightarrow> string + json \<Rightarrow> json option" where
  "onMessage string_number now1 now2 parsed =
     (case parsed of
        Inl msg \<Rightarrow> Some (error_envelope msg)
      | Inr data \<Rightarrow>
          (case get_field data ''type'' of
             Inl msg \<Rightarrow> Some (error_envelope msg)
           | Inr ty \<Rightarrow>
               if ty = Some (JStr ''pong'') then None
               else
                 (case get_field data ''timestamp'' of
                    Inl msg \<Rightarrow> Some (error_envelope msg)
                  | Inr ts \<Rightarrow>
                      (case ToNumber string_number ts of
                         Inl msg \<Rightarrow> Some (error_envelope msg)
                       | Inr t \<Rightarrow>
                           Some (JObj [(''type'', JStr ''response''),
                                       (''data'', data),
                                       (''timestamp'', JNum now1),
                                       (''latency'', number_json (map_option (\<lambda>k. now2 - k) t))])))))"

definition ws_message ::
  "(json \<Rightarrow> int option) \<Rightarrow> nat \<Rightarrow> int \<Rightarrow> int \<Rightarrow> string + json \<Rightarrow> worker_state \<Rightarrow> worker_state" where
  "ws_message string_number sid now1 now2 parsed w =
     (case onMessage string_number now1 now2 parsed of
        None \<Rightarrow> w
      | Some msg \<Rightarrow> server_send sid msg w)"

section \<open>Request handler\<close>

text \<open>
  What the runtime answers during one \<open>handleRequest\<close>: three clock readings, what
  \<open>caches.default.match\<close> does if called, whether the \<open>Request\<close> and \<open>URL\<close> constructors
  reject their arguments, and what \<open>fetch\<close> does if called (\<open>Inl\<close>: it rejects with that
  message, as on a network error or a timeout).
\<close>

record request_env =
  now_at_entry :: int
  now_before_fetch :: int
  now_after_fetch :: int
  cache_match_answer :: "string + response option"
  new_Request_error :: "string option"
  new_URL_error :: "string option"
  fetch_answer :: "string + response"

definition metrics_json :: "metrics \<Rightarrow> json" where
  "metrics_json m =
     JObj [(''activeConnections'', JNum (int (activeConnections m))),
           (''totalRequests'', JNum (int (totalRequests m))),
           (''cacheHits'', JNum (int (cacheHits m))),
           (''cacheMisses'', JNum (int (cacheMisses m)))]"

definition health_response :: "int \<Rightarrow> worker_state \<Rightarrow> response" where
  "health_response now w =
     new_Response
       (Json (JObj [(''status'', JStr ''healthy''),
                    (''metrics'', metrics_json (metrics w)),
                    (''backends'', JArr (map (\<lambda>b. JObj [(''url'', JStr (url b)),
                                                         (''healthy'', JBool (healthy b)),
                                                         (''priority'', JNum (priority b))])
                                          (backends w))),
                    (''timestamp'', JNum now)]))
       200 [(''content-type'', ''application/json'')]"

definition metrics_response :: "int \<Rightarrow> worker_state \<Rightarrow> response" where
  "metrics_response now w =
     new_Response
       (Json (JObj [(''metrics'', metrics_json (metrics w)),
                    (''rateLimits'', JNum (int (length (requests w)))),
                    (''timestamp'', JNum now)]))
       200 [(''content-type'', ''application/json'')]"

definition rate_limit_response :: "rateLimit_config \<Rightarrow> response" where
  "rate_limit_response rl =
     new_Response (Text ''Rate limit exceeded'') 429
       [(''retry-after'', ''60''), (''x-rate-limit'', int_to_string (requestsPerMinute rl))]"

definition cache_hit_response :: "response \<Rightarrow> worker_state \<Rightarrow> response" where
  "cache_hit_response cached w =
     (let hs = new_Headers (resp_headers cached);
          hs = headers_set hs ''x-cache'' ''HIT'';
          hs = headers_set hs ''x-cache-hits'' (nat_to_string (cacheHits (metrics w)))
      in \<lparr>status = status cached, statusText = statusText cached, resp_headers = hs,
          resp_body = resp_body cached, webSocket = None\<rparr>)"

text \<open>The \<open>catch\<close> block: \<open>backend.healthy = false\<close> on the selected object, then 502.\<close>

definition backend_error ::
  "string \<Rightarrow> nat \<Rightarrow> backend \<Rightarrow> worker_state \<Rightarrow> response \<times> worker_state" where
  "backend_error message i backend w =
     (new_Response
        (Json (JObj [(''error'', JStr ''Backend error''),
                     (''message'', JStr message),
                     (''backend'', JStr (url backend))]))
        502 [(''content-type'', ''application/json'')],
      w\<lparr>backends := (backends w)[i := (backends w ! i)\<lparr>healthy := False\<rparr>]\<rparr>)"

text \<open>
  The \<open>try\<close> block: one \<open>fetch\<close> to the selected backend, then the cache store and
  the response with the diagnostic headers. The \<open>Response\<close> constructor's
  \<open>RangeError\<close> is thrown inside the \<open>try\<close>, so it ends in the \<open>catch\<close> block too.
\<close>

definition forward ::
  "config \<Rightarrow> request_env \<Rightarrow> request \<Rightarrow> request \<Rightarrow> nat \<Rightarrow> backend \<Rightarrow> worker_state
     \<Rightarrow> response \<times> worker_state" where
  "forward cfg env request optimizedRequest i backend w =
     (let w1 = log_call (Fetch (Relative (pathname request @ search request) (url backend))
                           (req_method optimizedRequest) (headers optimizedRequest)
                           (req_body optimizedRequest)) w
      in case fetch_answer env of
           Inl message \<Rightarrow> backend_error message i backend w1
         | Inr resp \<Rightarrow>
             (let latency = now_after_fetch env - now_before_fetch env;
                  w2 = cacheManager_put (cache cfg) request resp w1;
                  hs = new_Headers (resp_headers resp);
                  hs = headers_set hs ''x-cache'' ''MISS'';
                  hs = headers_set hs ''x-backend'' (url backend);
                  hs = headers_set hs ''x-latency'' (int_to_string latency);
                  hs = headers_set hs ''x-region'' (region backend);
                  hs = headers_set hs ''x-powered-by'' ''Advanced-Ping-Booster''
              in if \<not> Response_status_ok (status resp)
                 then backend_error
                        ''Responses may only be constructed with status codes in the range 200 to 599, inclusive.''
                        i backend w2
                 else (\<lparr>status = status resp, statusText = statusText resp, resp_headers = hs,
                        resp_body = resp_body resp, webSocket = None\<rparr>, w2)))"

text \<open>Lines 459 to 513: backend selection, the rewritten request, the backend URL, the forward.\<close>

definition route_and_forward ::
  "config \<Rightarrow> request_env \<Rightarrow> request \<Rightarrow> worker_state \<Rightarrow> (string + response) \<times> worker_state" where
  "route_and_forward cfg env request w =
     (case selectBackend (backends w) request of
        None \<Rightarrow> (Inr (new_Response (Text ''No healthy backends available'') 503 []), w)
      | Some (i, backend) \<Rightarrow>
          (case new_Request_error env of
             Some err \<Rightarrow> (Inl err, w)
           | None \<Rightarrow>
               (let optimizedRequest = optimizeRequest (optimization cfg) request
                in case new_URL_error env of
                     Some err \<Rightarrow> (Inl err, w)
                   | None \<Rightarrow>
                       (let (resp, w') = forward cfg env request optimizedRequest i backend w
                        in (Inr resp, w')))))"

text \<open>Lines 430 to 457: the rate limit, then the cache lookup.\<close>

definition limit_and_cache ::
  "config \<Rightarrow> request_env \<Rightarrow> request \<Rightarrow> worker_state \<Rightarrow> (string + response) \<times> worker_state" where
  "limit_and_cache cfg env request w =
     (let clientId = or_default (headers_get (headers request) ''cf-connecting-ip'') ''unknown'';
          (allowed, tbl) = checkLimit (rateLimit cfg) (now_at_entry env) clientId (requests w);
          w1 = w\<lparr>requests := tbl\<rparr>
      in if \<not> allowed then (Inr (rate_limit_response (rateLimit cfg)), w1)
         else
           (let (cachedResponse, w2) =
                  cacheManager_get (cache cfg) (cache_match_answer env) request w1
            in case cachedResponse of
                 Some cached \<Rightarrow> (Inr (cache_hit_response cached w2), w2)
               | None \<Rightarrow> route_and_forward cfg env request w2))"

text \<open>
  \<open>handleRequest(request)\<close>, run to completion. \<open>Inl\<close> is an exception that leaves the
  handler (a rejected promise).
\<close>

definition handleRequest ::
  "config \<Rightarrow> request_env \<Rightarrow> request \<Rightarrow> worker_state \<Rightarrow> (string + response) \<times> worker_state" where
  "handleRequest cfg env request w =
     (let w0 = w\<lparr>metrics := (metrics w)\<lparr>totalRequests := totalRequests (metrics w) + 1\<rparr>\<rparr>
      in if pathname request = ''/health'' then (Inr (health_response (now_at_entry env) w0), w0)
         else if pathname request = ''/metrics'' then (Inr (metrics_response (now_at_entry env) w0), w0)
         else if pathname request = ''/ws'' \<or> headers_get (headers request) ''Upgrade'' = Some ''websocket''
         then (let (resp, w') = handleWebSocket cfg request w0 in (Inr resp, w'))
         else limit_and_cache cfg env request w0)"

text \<open>The same request handled once per environment of the list, in order.\<close>

fun handleRequest_repeated ::
  "config \<Rightarrow> request_env list \<Rightarrow> request \<Rightarrow> worker_state \<Rightarrow> worker_state" where
  "handleRequest_repeated cfg [] request w = w"
| "handleRequest_repeated cfg (env # envs) request w =
     handleRequest_repeated cfg envs request (snd (handleRequest cfg env request w))"

section \<open>Scheduled maintenance and the operations of an instance\<close>

definition handleScheduled :: "config \<Rightarrow> (nat \<Rightarrow> bool) \<Rightarrow> int \<Rightarrow> worker_state \<Rightarrow> worker_state" where
  "handleScheduled cfg probe now w =
     (let w1 = updateHealthStatus probe w
      in w1\<lparr>requests := cleanup (rateLimit cfg) now (requests w1)\<rparr>)"

text \<open>
  Everything that changes the state of an instance: the two exported handlers, and the
  listeners and the timer of a WebSocket session that \<open>handleWebSocket\<close> installs.
\<close>

datatype operation =
    Inbound request_env request
  | Scheduled "nat \<Rightarrow> bool" int
  | KeepAliveTick nat int bool
  | SocketMessage nat int int "string + json"
  | SocketClose nat

fun step :: "config \<Rightarrow> (json \<Rightarrow> int option) \<Rightarrow> operation \<Rightarrow> worker_state \<Rightarrow> worker_state" where
  "step cfg sn (Inbound env request) w = snd (handleRequest cfg env request w)"
| "step cfg sn (Scheduled probe now) w = handleScheduled cfg probe now w"
| "step cfg sn (KeepAliveTick sid now send_ok) w = keepAlive_tick sid now send_ok w"
| "step cfg sn (SocketMessage sid now1 now2 parsed) w = ws_message sn sid now1 now2 parsed w"
| "step cfg sn (SocketClose sid) w = clearInterval sid w"

text \<open>The instance as the module creates it, and the configuration of the source.\<close>

definition initial_state :: "backend list \<Rightarrow> worker_state" where
  "initial_state bs =
     \<lparr>backends = bs, connections = [],
      metrics = \<lparr>activeConnections = 0, totalRequests = 0, cacheHits = 0, cacheMisses = 0\<rparr>,
      requests = [], healthStatus = [], sessions = [], calls = []\<rparr>"

definition CONFIG_backends :: "backend list" where
  "CONFIG_backends =
     [\<lparr>url = ''https://api.example.com'', priority = 1, region = ''us-east'', healthy = True\<rparr>,
      \<lparr>url = ''https://api-backup.example.com'', priority = 2, region = ''us-west'', healthy = True\<rparr>]"

definition CONFIG :: config where
  "CONFIG =
     \<lparr>websocket = \<lparr>keepAliveInterval = 30000\<rparr>,
      cache = \<lparr>ttl = 300, bypassPaths = [''/api/realtime'', ''/ws'']\<rparr>,
      rateLimit = \<lparr>enabled = True, requestsPerMinute = 100, windowMs = 60000\<rparr>,
      optimization = \<lparr>keepAlive = True, compression = True, http2 = True\<rparr>\<rparr>"

text \<open>Kinds of runtime calls, to read the log by.\<close>

fun is_cache_call :: "runtime_call \<Rightarrow> bool" where
  "is_cache_call (CacheMatch r) = True"
| "is_cache_call (CachePut r resp) = True"
| "is_cache_call c = False"

fun is_fetch_call :: "runtime_call \<Rightarrow> bool" where
  "is_fetch_call (Fetch u m hs b) = True"
| "is_fetch_call c = False"

fun is_socket_call :: "runtime_call \<Rightarrow> bool" where
  "is_socket_call NewWebSocketPair = True"
| "is_socket_call (SetInterval ms) = True"
| "is_socket_call c = False"

fun is_inbound :: "operation \<Rightarrow> bool" where
  "is_inbound (Inbound env request) = True"
| "is_inbound operation = False"

text \<open>Inputs for worked examples: a \<open>GET\<close> request, and a runtime that answers as given.\<close>

definition GET :: "string \<Rightarrow> headers \<Rightarrow> request" where
  "GET path hs =
     \<lparr>req_method = ''GET'', pathname = path, search = [], headers = hs, req_body = Empty\<rparr>"

definition runtime_answers :: "string + response option \<Rightarrow> string + response \<Rightarrow> request_env" where
  "runtime_answers cache_answer fetch_result =
     \<lparr>now_at_entry = 1000, now_before_fetch = 1000, now_after_fetch = 1040,
      cache_match_answer = cache_answer, new_Request_error = None, new_URL_error = None,
      fetch_answer = fetch_result\<rparr>"

section \<open>Properties of the rate limiter\<close>

lemma distinct_checkLimit:
  "distinct (map fst tbl) \<Longrightarrow> distinct (map fst (snd (checkLimit rl now clientId tbl)))"
  by (simp add: checkLimit_def Let_def distinct_update)

lemma distinct_cleanup_entry:
  "distinct (map fst tbl) \<Longrightarrow> distinct (map fst (cleanup_entry rl now e tbl))"
  by (simp add: cleanup_entry_def Let_def distinct_update distinct_delete)

lemma distinct_fold_cleanup_entry:
  "distinct (map fst tbl) \<Longrightarrow> distinct (map fst (fold (cleanup_entry rl now) es tbl))"
  by (induction es arbitrary: tbl) (simp_all add: distinct_cleanup_entry)

lemma map_of_cleanup_entry_other:
  "k \<noteq> c \<Longrightarrow> map_of (cleanup_entry rl now (c, ts) tbl) k = map_of tbl k"
  by (simp add: cleanup_entry_def Let_def update_conv' delete_conv')

lemma map_of_cleanup_entry_same:
  "map_of (cleanup_entry rl now (c, ts) tbl) c =
     (let v = filter (\<lambda>t. t > now - windowMs rl) ts in if v = [] then None else Some v)"
  by (simp add: cleanup_entry_def Let_def update_conv' delete_conv')

lemma map_of_fold_cleanup_entry:
  "distinct (map fst es) \<Longrightarrow>
   map_of (fold (cleanup_entry rl now) es tbl) k =
     (case map_of es k of
        None \<Rightarrow> map_of tbl k
      | Some ts \<Rightarrow>
          (let v = filter (\<lambda>t. t > now - windowMs rl) ts in if v = [] then None else Some v))"
proof (induction es arbitrary: tbl)
  case Nil
  then show ?case by simp
next
  case (Cons e es)
  from Cons.prems have d: "distinct (map fst es)" and fresh: "fst e \<notin> fst ` set es"
    by auto
  have step: "map_of (fold (cleanup_entry rl now) (e # es) tbl) k =
      (case map_of es k of
         None \<Rightarrow> map_of (cleanup_entry rl now e tbl) k
       | Some ts \<Rightarrow>
          (let v = filter (\<lambda>t. t > now - windowMs rl) ts in if v = [] then None else Some v))"
    using Cons.IH [OF d] by simp
  show ?case
  proof (cases "k = fst e")
    case True
    with fresh have "map_of es k = None"
      by (simp add: map_of_eq_None_iff)
    with True step show ?thesis
      by (cases e) (simp add: map_of_cleanup_entry_same)
  next
    case False
    with step show ?thesis
      by (cases e) (auto simp: map_of_cleanup_entry_other split: option.splits)
  qed
qed

lemma map_of_cleanup:
  "distinct (map fst tbl) \<Longrightarrow>
   map_of (cleanup rl now tbl) k =
     (case map_of tbl k of
        None \<Rightarrow> None
      | Some ts \<Rightarrow>
          (let v = filter (\<lambda>t. t > now - windowMs rl) ts in if v = [] then None else Some v))"
  by (simp add: cleanup_def map_of_fold_cleanup_entry split: option.splits)

text \<open>
  Claim C1. With rate limiting enabled, \<open>checkLimit\<close> at clock reading \<open>now\<close> answers
  true exactly when fewer than \<open>requestsPerMinute\<close> of the client's stored timestamps are
  strictly newer than \<open>now - windowMs\<close>. When it answers true the client's stored window
  becomes those timestamps followed by \<open>now\<close>; when it answers false the table is
  unchanged. With a limit of 2 per 60000 ms, requests of one client at 0, 5, 10 and
  60001 ms are admitted, admitted, denied and admitted.
\<close>

theorem checkLimit_admits_iff_window_below_limit:
  assumes "enabled rl"
  shows
    "(fst (checkLimit rl now clientId tbl) \<longleftrightarrow>
        int (length (filter (\<lambda>t. t > now - windowMs rl)
               (case map_of tbl clientId of None \<Rightarrow> [] | Some ts \<Rightarrow> ts)))
          < requestsPerMinute rl)
     \<and> (if fst (checkLimit rl now clientId tbl)
        then map_of (snd (checkLimit rl now clientId tbl)) =
               (map_of tbl)(clientId \<mapsto>
                  filter (\<lambda>t. t > now - windowMs rl)
                    (case map_of tbl clientId of None \<Rightarrow> [] | Some ts \<Rightarrow> ts) @ [now])
        else snd (checkLimit rl now clientId tbl) = tbl)
     \<and> fst (checkLimit_run \<lparr>enabled = True, requestsPerMinute = 2, windowMs = 60000\<rparr>
              clientId [0, 5, 10, 60001] [])
         = [True, True, False, True]"
proof -
  have scenario:
    "fst (checkLimit_run \<lparr>enabled = True, requestsPerMinute = 2, windowMs = 60000\<rparr>
            clientId [0, 5, 10, 60001] []) = [True, True, False, True]"
    by (simp add: checkLimit_def Let_def)
  from assms scenario show ?thesis
    by (simp add: checkLimit_def Let_def update_conv' not_le)
qed

theorem checkLimit_admits_iff_window_below_limit_witness:
  "enabled \<lparr>enabled = True, requestsPerMinute = 2, windowMs = 60000\<rparr>
   \<and> \<not> fst (checkLimit \<lparr>enabled = True, requestsPerMinute = 2, windowMs = 60000\<rparr>
             10 ''203.0.113.7'' [(''203.0.113.7'', [0, 5])])
   \<and> snd (checkLimit \<lparr>enabled = True, requestsPerMinute = 2, windowMs = 60000\<rparr>
             10 ''203.0.113.7'' [(''203.0.113.7'', [0, 5])]) = [(''203.0.113.7'', [0, 5])]
   \<and> fst (checkLimit \<lparr>enabled = True, requestsPerMinute = 2, windowMs = 60000\<rparr>
             60001 ''203.0.113.7'' [(''203.0.113.7'', [0, 5])])
   \<and> map_of (snd (checkLimit \<lparr>enabled = True, requestsPerMinute = 2, windowMs = 60000\<rparr>
             60001 ''203.0.113.7'' [(''203.0.113.7'', [0, 5])])) ''203.0.113.7''
        = Some [5, 60001]"
  using
    checkLimit_admits_iff_window_below_limit
      [of "\<lparr>enabled = True, requestsPerMinute = 2, windowMs = 60000\<rparr>"
          10 "''203.0.113.7''" "[(''203.0.113.7'', [0, 5])]"]
    checkLimit_admits_iff_window_below_limit
      [of "\<lparr>enabled = True, requestsPerMinute = 2, windowMs = 60000\<rparr>"
          60001 "''203.0.113.7''" "[(''203.0.113.7'', [0, 5])]"]
  by (simp add: checkLimit_def Let_def)

text \<open>
  Claim C8. After \<open>cleanup\<close> at clock reading \<open>now\<close>, a client id is a key of the table
  exactly when the table held, for that client, a timestamp strictly newer than
  \<open>now - windowMs\<close>; a surviving entry is the client's old entry restricted to such
  timestamps, so it is not empty and holds nothing older; and the table has not grown.
\<close>

theorem cleanup_keeps_exactly_active_clients:
  assumes "distinct (map fst tbl)"
  shows
    "(clientId \<in> fst ` set (cleanup rl now tbl) \<longleftrightarrow>
        (\<exists>ts. map_of tbl clientId = Some ts \<and> (\<exists>t \<in> set ts. t > now - windowMs rl)))
     \<and> (\<forall>ts'. map_of (cleanup rl now tbl) clientId = Some ts' \<longrightarrow>
           ts' \<noteq> [] \<and> (\<forall>t \<in> set ts'. t > now - windowMs rl)
           \<and> (\<exists>ts. map_of tbl clientId = Some ts
                    \<and> ts' = filter (\<lambda>t. t > now - windowMs rl) ts))
     \<and> distinct (map fst (cleanup rl now tbl))
     \<and> length (cleanup rl now tbl) \<le> length tbl"
proof -
  have keys: "clientId \<in> fst ` set (cleanup rl now tbl) \<longleftrightarrow>
        (\<exists>ts. map_of tbl clientId = Some ts \<and> (\<exists>t \<in> set ts. t > now - windowMs rl))"
  proof -
    have "clientId \<in> fst ` set (cleanup rl now tbl) \<longleftrightarrow>
            map_of (cleanup rl now tbl) clientId \<noteq> None"
      by (simp add: map_of_eq_None_iff)
    also have "\<dots> \<longleftrightarrow>
        (\<exists>ts. map_of tbl clientId = Some ts \<and> (\<exists>t \<in> set ts. t > now - windowMs rl))"
      by (auto simp: map_of_cleanup [OF assms] Let_def filter_empty_conv
               split: option.splits)
    finally show ?thesis .
  qed
  have entries: "\<forall>ts'. map_of (cleanup rl now tbl) clientId = Some ts' \<longrightarrow>
           ts' \<noteq> [] \<and> (\<forall>t \<in> set ts'. t > now - windowMs rl)
           \<and> (\<exists>ts. map_of tbl clientId = Some ts
                    \<and> ts' = filter (\<lambda>t. t > now - windowMs rl) ts)"
    by (auto simp: map_of_cleanup [OF assms] Let_def split: option.splits if_splits)
  have dist: "distinct (map fst (cleanup rl now tbl))"
    using assms by (simp add: cleanup_def distinct_fold_cleanup_entry)
  have "fst ` set (cleanup rl now tbl) \<subseteq> fst ` set tbl"
  proof
    fix k assume "k \<in> fst ` set (cleanup rl now tbl)"
    then have "map_of (cleanup rl now tbl) k \<noteq> None"
      by (simp add: map_of_eq_None_iff)
    then have "map_of tbl k \<noteq> None"
      by (auto simp: map_of_cleanup [OF assms] split: option.splits)
    then show "k \<in> fst ` set tbl"
      by (simp add: map_of_eq_None_iff)
  qed
  then have "card (fst ` set (cleanup rl now tbl)) \<le> card (fst ` set tbl)"
    by (simp add: card_mono)
  with dist assms have len: "length (cleanup rl now tbl) \<le> length tbl"
    by (metis distinct_card length_map set_map)
  from keys entries dist len show ?thesis by blast
qed

theorem cleanup_keeps_exactly_active_clients_witness:
  "distinct (map fst [(''a'', [0, 5]), (''b'', [100, 70000]), (''c'', [])])
   \<and> cleanup \<lparr>enabled = True, requestsPerMinute = 2, windowMs = 60000\<rparr> 70001
        [(''a'', [0, 5]), (''b'', [100, 70000]), (''c'', [])] = [(''b'', [70000])]
   \<and> ''b'' \<in> fst ` set (cleanup \<lparr>enabled = True, requestsPerMinute = 2, windowMs = 60000\<rparr>
        70001 [(''a'', [0, 5]), (''b'', [100, 70000]), (''c'', [])])"
proof -
  have d: "distinct (map fst [(''a'', [0::int, 5]), (''b'', [100, 70000]), (''c'', [])])"
    by simp
  have run: "cleanup \<lparr>enabled = True, requestsPerMinute = 2, windowMs = 60000\<rparr> 70001
        [(''a'', [0, 5]), (''b'', [100, 70000]), (''c'', [])] = [(''b'', [70000])]"
    by (simp add: cleanup_def cleanup_entry_def AList.delete_eq)
  from cleanup_keeps_exactly_active_clients
         [OF d, of "''b''" "\<lparr>enabled = True, requestsPerMinute = 2, windowMs = 60000\<rparr>" 70001]
  have "''b'' \<in> fst ` set (cleanup \<lparr>enabled = True, requestsPerMinute = 2, windowMs = 60000\<rparr>
        70001 [(''a'', [0, 5]), (''b'', [100, 70000]), (''c'', [])])"
    by simp
  with d run show ?thesis by simp
qed

section \<open>Properties of the router\<close>

lemma in_getHealthyBackends:
  "p \<in> set (getHealthyBackends bs) \<longleftrightarrow>
     fst p < length bs \<and> bs ! fst p = snd p \<and> healthy (snd p)"
  by (cases p) (auto simp: getHealthyBackends_def in_set_enumerate_eq)

lemma getHealthyBackends_empty:
  "getHealthyBackends bs = [] \<longleftrightarrow> (\<forall>b \<in> set bs. \<not> healthy b)"
proof
  assume e: "getHealthyBackends bs = []"
  show "\<forall>b \<in> set bs. \<not> healthy b"
  proof
    fix b assume "b \<in> set bs"
    then obtain i where "i < length bs" "bs ! i = b"
      by (auto simp: in_set_conv_nth)
    then have "healthy b \<Longrightarrow> (i, b) \<in> set (getHealthyBackends bs)"
      by (simp add: in_getHealthyBackends)
    with e show "\<not> healthy b" by auto
  qed
next
  assume a: "\<forall>b \<in> set bs. \<not> healthy b"
  have "set (getHealthyBackends bs) = {}"
  proof (rule ccontr)
    assume "set (getHealthyBackends bs) \<noteq> {}"
    then have "getHealthyBackends bs \<noteq> []" by simp
    then have "hd (getHealthyBackends bs) \<in> set (getHealthyBackends bs)" by simp
    then obtain p where "p \<in> set (getHealthyBackends bs)" ..
    then have "fst p < length bs" "bs ! fst p = snd p" "healthy (snd p)"
      by (simp_all add: in_getHealthyBackends)
    with a show False by (metis nth_mem)
  qed
  then show "getHealthyBackends bs = []" by simp
qed

lemma find_in_set: "find P xs = Some x \<Longrightarrow> x \<in> set xs \<and> P x"
  by (induction xs) (auto split: if_splits)

lemma selectBackend_some_healthy:
  "getHealthyBackends bs \<noteq> [] \<Longrightarrow>
   selectBackend bs request =
     (case find (\<lambda>p. Region (region (snd p)) =
                   getRegionFromCountry
                     (or_default (headers_get (headers request) ''cf-ipcountry'') ''US''))
             (getHealthyBackends bs) of
        Some regionalBackend \<Rightarrow> Some regionalBackend
      | None \<Rightarrow> Some (hd (getHealthyBackends bs)))"
  by (cases "getHealthyBackends bs") (auto simp: selectBackend_def Let_def split: option.splits)

text \<open>
  Claim C3. When the request's country resolves to region \<open>R\<close> and some healthy backend
  has region \<open>R\<close>, \<open>selectBackend\<close> returns a backend of the registry that is healthy and
  has region \<open>R\<close>, whatever the priorities are. With healthy A in us-east (priority 1)
  and healthy B in eu-west (priority 2), a request resolved to eu-west gets B.
\<close>

theorem selectBackend_prefers_client_region:
  assumes resolved:
      "getRegionFromCountry (or_default (headers_get (headers request) ''cf-ipcountry'') ''US'')
         = Region R"
    and available: "\<exists>b \<in> set bs. healthy b \<and> region b = R"
  shows
    "(\<exists>i b. selectBackend bs request = Some (i, b) \<and> i < length bs \<and> bs ! i = b
           \<and> healthy b \<and> region b = R)
     \<and> (R = ''eu-west'' \<longrightarrow>
          selectBackend
            [\<lparr>url = urlA, priority = 1, region = ''us-east'', healthy = True\<rparr>,
             \<lparr>url = urlB, priority = 2, region = ''eu-west'', healthy = True\<rparr>] request
          = Some (1, \<lparr>url = urlB, priority = 2, region = ''eu-west'', healthy = True\<rparr>))"
proof -
  from available obtain b where b: "b \<in> set bs" "healthy b" "region b = R"
    by blast
  then obtain i where i: "i < length bs" "bs ! i = b"
    by (auto simp: in_set_conv_nth)
  with b have mem: "(i, b) \<in> set (getHealthyBackends bs)"
    by (simp add: in_getHealthyBackends)
  then have hb: "getHealthyBackends bs \<noteq> []"
    by auto
  have "find (\<lambda>p. Region (region (snd p)) = Region R) (getHealthyBackends bs) \<noteq> None"
    using mem b(3) by (auto simp: find_None_iff)
  then obtain p where p: "find (\<lambda>p. Region (region (snd p)) = Region R) (getHealthyBackends bs) = Some p"
    by auto
  from find_in_set [OF p] have "p \<in> set (getHealthyBackends bs)" "region (snd p) = R"
    by simp_all
  then have props: "fst p < length bs" "bs ! fst p = snd p" "healthy (snd p)" "region (snd p) = R"
    by (simp_all add: in_getHealthyBackends)
  have sel: "selectBackend bs request = Some p"
    using p resolved by (simp add: selectBackend_some_healthy [OF hb])
  have general: "\<exists>i b. selectBackend bs request = Some (i, b) \<and> i < length bs \<and> bs ! i = b
           \<and> healthy b \<and> region b = R"
    using sel props by (cases p) auto
  have example: "R = ''eu-west'' \<longrightarrow>
          selectBackend
            [\<lparr>url = urlA, priority = 1, region = ''us-east'', healthy = True\<rparr>,
             \<lparr>url = urlB, priority = 2, region = ''eu-west'', healthy = True\<rparr>] request
          = Some (1, \<lparr>url = urlB, priority = 2, region = ''eu-west'', healthy = True\<rparr>)"
    using resolved
    by (simp add: selectBackend_def getHealthyBackends_def Let_def enumerate_eq_zip)
  from general example show ?thesis by blast
qed

theorem selectBackend_prefers_client_region_witness:
  "getRegionFromCountry
     (or_default
        (headers_get
           (headers \<lparr>req_method = ''GET'', pathname = ''/api/data'', search = [],
                     headers = [(''CF-IPCountry'', ''GB'')], req_body = Empty\<rparr>)
           ''cf-ipcountry'') ''US'')
     = Region ''eu-west''
   \<and> (\<exists>b \<in> set [\<lparr>url = ''https://a.example'', priority = 1, region = ''us-east'', healthy = True\<rparr>,
                  \<lparr>url = ''https://b.example'', priority = 2, region = ''eu-west'', healthy = True\<rparr>].
         healthy b \<and> region b = ''eu-west'')
   \<and> selectBackend
         [\<lparr>url = ''https://a.example'', priority = 1, region = ''us-east'', healthy = True\<rparr>,
          \<lparr>url = ''https://b.example'', priority = 2, region = ''eu-west'', healthy = True\<rparr>]
         \<lparr>req_method = ''GET'', pathname = ''/api/data'', search = [],
          headers = [(''CF-IPCountry'', ''GB'')], req_body = Empty\<rparr>
       = Some (1, \<lparr>url = ''https://b.example'', priority = 2, region = ''eu-west'', healthy = True\<rparr>)"
proof -
  let ?rq = "\<lparr>req_method = ''GET'', pathname = ''/api/data'', search = [],
              headers = [(''CF-IPCountry'', ''GB'')], req_body = Empty\<rparr>"
  let ?bs = "[\<lparr>url = ''https://a.example'', priority = 1, region = ''us-east'', healthy = True\<rparr>,
              \<lparr>url = ''https://b.example'', priority = 2, region = ''eu-west'', healthy = True\<rparr>]"
  have resolved:
    "getRegionFromCountry (or_default (headers_get (headers ?rq) ''cf-ipcountry'') ''US'')
       = Region ''eu-west''"
    by code_simp
  have available: "\<exists>b \<in> set ?bs. healthy b \<and> region b = ''eu-west''"
    by simp
  from selectBackend_prefers_client_region
         [OF resolved available, of "''https://a.example''" "''https://b.example''"]
  have "selectBackend ?bs ?rq
          = Some (1, \<lparr>url = ''https://b.example'', priority = 2, region = ''eu-west'', healthy = True\<rparr>)"
    by simp
  with resolved available show ?thesis
    by blast
qed

text \<open>
  Claim C7. When no backend is healthy, \<open>selectBackend\<close> returns the first backend of
  the registry (nothing for an empty registry), whatever the request is: it reads the
  state without changing it, so a repeated call gives the same backend.
\<close>

theorem selectBackend_degraded_returns_first:
  assumes "\<forall>b \<in> set bs. \<not> healthy b"
  shows "selectBackend bs request = (case bs of [] \<Rightarrow> None | b # others \<Rightarrow> Some (0, b))
         \<and> selectBackend bs request' = selectBackend bs request"
proof -
  from assms have "getHealthyBackends bs = []"
    by (simp add: getHealthyBackends_empty)
  then show ?thesis
    by (simp add: selectBackend_def)
qed

theorem selectBackend_degraded_returns_first_witness:
  "list_all (\<lambda>b. \<not> healthy b)
     [\<lparr>url = ''https://a.example'', priority = 2, region = ''us-east'', healthy = False\<rparr>,
      \<lparr>url = ''https://b.example'', priority = 1, region = ''eu-west'', healthy = False\<rparr>]
   \<and> selectBackend
         [\<lparr>url = ''https://a.example'', priority = 2, region = ''us-east'', healthy = False\<rparr>,
          \<lparr>url = ''https://b.example'', priority = 1, region = ''eu-west'', healthy = False\<rparr>]
         \<lparr>req_method = ''GET'', pathname = ''/api/data'', search = [],
          headers = [(''CF-IPCountry'', ''GB'')], req_body = Empty\<rparr>
       = Some (0, \<lparr>url = ''https://a.example'', priority = 2, region = ''us-east'', healthy = False\<rparr>)"
proof -
  let ?bs = "[\<lparr>url = ''https://a.example'', priority = 2, region = ''us-east'', healthy = False\<rparr>,
              \<lparr>url = ''https://b.example'', priority = 1, region = ''eu-west'', healthy = False\<rparr>]"
  have none: "\<forall>b \<in> set ?bs. \<not> healthy b"
    by simp
  from selectBackend_degraded_returns_first [OF none]
  have "selectBackend ?bs
          \<lparr>req_method = ''GET'', pathname = ''/api/data'', search = [],
           headers = [(''CF-IPCountry'', ''GB'')], req_body = Empty\<rparr>
        = Some (0, \<lparr>url = ''https://a.example'', priority = 2, region = ''us-east'', healthy = False\<rparr>)"
    by simp
  then show ?thesis
    by simp
qed

section \<open>Properties of the request optimizer\<close>

lemma headers_has_Cons:
  "headers_has (h # hs) m \<longleftrightarrow> same_name (fst h) m \<or> headers_has hs m"
  by (simp add: headers_has_def)

lemma headers_has_delete:
  "headers_has (headers_delete hs n) m \<longleftrightarrow> headers_has hs m \<and> \<not> same_name m n"
  by (induction hs) (auto simp: headers_has_Cons headers_delete_def same_name_def headers_has_def)

lemma headers_get_None: "headers_get hs n = None \<longleftrightarrow> \<not> headers_has hs n"
  by (induction hs) (auto simp: headers_get_def headers_has_def Let_def)

lemma headers_has_set_other:
  "\<not> same_name (toLowerCase n) m \<Longrightarrow> \<not> same_name n m \<Longrightarrow>
   headers_has (headers_set hs n v) m = headers_has hs m"
proof (induction hs)
  case Nil
  then show ?case by (simp add: headers_has_def)
next
  case (Cons h hs)
  show ?case
  proof (cases "same_name (fst h) n")
    case True
    with Cons.prems have "\<not> same_name (fst h) m" "\<not> same_name m n"
      by (auto simp: same_name_def)
    with True show ?thesis
      by (simp add: headers_has_Cons headers_has_delete)
  next
    case False
    with Cons show ?thesis
      by (simp add: headers_has_Cons)
  qed
qed

lemma set_names_differ:
  assumes "n \<in> set [''accept-encoding'', ''upgrade'', ''connection'', ''keep-alive'']"
  shows "\<not> same_name (toLowerCase n) ''cookie'' \<and> \<not> same_name n ''cookie''
         \<and> \<not> same_name (toLowerCase n) ''authorization'' \<and> \<not> same_name n ''authorization''"
proof -
  have "list_all
          (\<lambda>n. \<not> same_name (toLowerCase n) ''cookie'' \<and> \<not> same_name n ''cookie''
                \<and> \<not> same_name (toLowerCase n) ''authorization''
                \<and> \<not> same_name n ''authorization'')
          [''accept-encoding'', ''upgrade'', ''connection'', ''keep-alive'']"
    by code_simp
  with assms show ?thesis
    unfolding list_all_iff by blast
qed

lemma optimizeHeaders_has:
  assumes "m = ''cookie'' \<or> m = ''authorization''"
  shows "headers_has (optimizeHeaders opt hs) m =
         headers_has (headers_delete (headers_delete (new_Headers hs) ''cookie'') ''authorization'') m"
proof -
  have keep: "headers_has (headers_set xs n v) m = headers_has xs m"
    if "n \<in> set [''accept-encoding'', ''upgrade'', ''connection'', ''keep-alive'']" for xs n v
    using set_names_differ [OF that] assms by (auto simp: headers_has_set_other)
  show ?thesis
    by (simp add: optimizeHeaders_def Let_def keep)
qed

text \<open>
  Claim C6. \<open>optimizeHeaders\<close> is a function of the optimization flags and the given
  headers alone (it copies its argument, reads no other state and has no error result),
  and its result has no header named \<open>cookie\<close> or \<open>authorization\<close>, in any letter case.
\<close>

theorem optimizeHeaders_strips_credentials:
  "\<not> headers_has (optimizeHeaders opt hs) ''cookie''
   \<and> \<not> headers_has (optimizeHeaders opt hs) ''authorization''
   \<and> headers_get (optimizeHeaders opt hs) ''cookie'' = None
   \<and> headers_get (optimizeHeaders opt hs) ''authorization'' = None"
  by (simp add: headers_get_None optimizeHeaders_has headers_has_delete same_name_def)

theorem optimizeHeaders_strips_credentials_witness:
  "headers_get
     (optimizeHeaders \<lparr>keepAlive = True, compression = True, http2 = True\<rparr>
        [(''Cookie'', ''sid=1''), (''Authorization'', ''Bearer t''), (''Accept'', ''*/*'')])
     ''cookie'' = None
   \<and> optimizeHeaders \<lparr>keepAlive = True, compression = True, http2 = True\<rparr>
        [(''Cookie'', ''sid=1''), (''Authorization'', ''Bearer t''), (''Accept'', ''*/*'')]
      = [(''accept'', ''*/*''), (''accept-encoding'', ''gzip, deflate, br''), (''upgrade'', ''h2''),
         (''connection'', ''keep-alive''), (''keep-alive'', ''timeout=60, max=1000'')]"
proof -
  have run:
    "optimizeHeaders \<lparr>keepAlive = True, compression = True, http2 = True\<rparr>
        [(''Cookie'', ''sid=1''), (''Authorization'', ''Bearer t''), (''Accept'', ''*/*'')]
      = [(''accept'', ''*/*''), (''accept-encoding'', ''gzip, deflate, br''), (''upgrade'', ''h2''),
         (''connection'', ''keep-alive''), (''keep-alive'', ''timeout=60, max=1000'')]"
    by code_simp
  from optimizeHeaders_strips_credentials
         [of "\<lparr>keepAlive = True, compression = True, http2 = True\<rparr>"
             "[(''Cookie'', ''sid=1''), (''Authorization'', ''Bearer t''), (''Accept'', ''*/*'')]"]
  have "headers_get
     (optimizeHeaders \<lparr>keepAlive = True, compression = True, http2 = True\<rparr>
        [(''Cookie'', ''sid=1''), (''Authorization'', ''Bearer t''), (''Accept'', ''*/*'')])
     ''cookie'' = None"
    by blast
  with run show ?thesis
    by blast
qed

section \<open>What each part of the request handler leaves alone\<close>

lemma handleWebSocket_refused:
  "headers_get (headers request) ''Upgrade'' \<noteq> Some ''websocket'' \<Longrightarrow>
   handleWebSocket cfg request w = (new_Response (Text ''Expected WebSocket'') 426 [], w)"
  by (auto simp: handleWebSocket_def Let_def split: option.splits)

lemma shouldCache_iff:
  "shouldCache cc request \<longleftrightarrow>
     \<not> (req_method request \<noteq> ''GET'' \<or> (\<exists>p \<in> set (bypassPaths cc). prefix p (pathname request)))"
  by (auto simp: shouldCache_def list_ex_iff)

lemma cacheManager_get_bypass:
  "\<not> shouldCache cc request \<Longrightarrow> cacheManager_get cc answer request w = (None, w)"
  by (simp add: cacheManager_get_def)

lemma cacheManager_put_bypass:
  "\<not> shouldCache cc request \<Longrightarrow> cacheManager_put cc request resp w = w"
  by (simp add: cacheManager_put_def)

lemma backend_error_frame:
  "calls (snd (backend_error m i b w)) = calls w"
  "metrics (snd (backend_error m i b w)) = metrics w"
  "sessions (snd (backend_error m i b w)) = sessions w"
  "requests (snd (backend_error m i b w)) = requests w"
  "connections (snd (backend_error m i b w)) = connections w"
  by (simp_all add: backend_error_def)

lemma forward_bypass:
  "\<not> shouldCache (cache cfg) request \<Longrightarrow>
   filter is_cache_call (calls (snd (forward cfg env request opt_request i b w)))
     = filter is_cache_call (calls w)
   \<and> metrics (snd (forward cfg env request opt_request i b w)) = metrics w"
  by (simp add: forward_def Let_def cacheManager_put_bypass backend_error_frame log_call_def
           split: sum.splits)

lemma route_and_forward_bypass:
  "\<not> shouldCache (cache cfg) request \<Longrightarrow>
   filter is_cache_call (calls (snd (route_and_forward cfg env request w)))
     = filter is_cache_call (calls w)
   \<and> metrics (snd (route_and_forward cfg env request w)) = metrics w"
  using forward_bypass [of cfg request env]
  by (auto simp: route_and_forward_def Let_def case_prod_beta split: option.splits)

lemma limit_and_cache_bypass:
  "\<not> shouldCache (cache cfg) request \<Longrightarrow>
   filter is_cache_call (calls (snd (limit_and_cache cfg env request w)))
     = filter is_cache_call (calls w)
   \<and> metrics (snd (limit_and_cache cfg env request w)) = metrics w"
  using route_and_forward_bypass [of cfg request env]
  by (auto simp: limit_and_cache_def Let_def cacheManager_get_bypass case_prod_beta)

lemma handleWebSocket_frame:
  "filter is_cache_call (calls (snd (handleWebSocket cfg request w))) = filter is_cache_call (calls w)"
  "filter is_fetch_call (calls (snd (handleWebSocket cfg request w))) = filter is_fetch_call (calls w)"
  "metrics (snd (handleWebSocket cfg request w)) = metrics w"
  "backends (snd (handleWebSocket cfg request w)) = backends w"
  by (simp_all add: handleWebSocket_def Let_def log_call_def)

lemma handleRequest_bypass:
  assumes "\<not> shouldCache (cache cfg) request"
  shows "filter is_cache_call (calls (snd (handleRequest cfg env request w)))
           = filter is_cache_call (calls w)
         \<and> cacheHits (metrics (snd (handleRequest cfg env request w))) = cacheHits (metrics w)
         \<and> cacheMisses (metrics (snd (handleRequest cfg env request w))) = cacheMisses (metrics w)"
  using limit_and_cache_bypass [OF assms, of env]
  by (simp add: handleRequest_def Let_def handleWebSocket_frame case_prod_beta)

lemma handleRequest_repeated_bypass:
  assumes "\<not> shouldCache (cache cfg) request"
  shows "filter is_cache_call (calls (handleRequest_repeated cfg envs request w))
           = filter is_cache_call (calls w)
         \<and> cacheHits (metrics (handleRequest_repeated cfg envs request w)) = cacheHits (metrics w)
         \<and> cacheMisses (metrics (handleRequest_repeated cfg envs request w)) = cacheMisses (metrics w)"
proof (induction envs arbitrary: w)
  case Nil
  show ?case by simp
next
  case (Cons env envs)
  show ?case
    using Cons.IH [of "snd (handleRequest cfg env request w)"]
          handleRequest_bypass [OF assms, of env w]
    by simp
qed

lemma selectBackend_index:
  assumes "selectBackend bs request = Some (i, b)"
  shows "i < length bs \<and> bs ! i = b"
proof (cases "getHealthyBackends bs")
  case Nil
  with assms show ?thesis
    by (cases bs) (auto simp: selectBackend_def)
next
  case (Cons first others)
  then have first: "first \<in> set (getHealthyBackends bs)"
    by simp
  let ?P = "\<lambda>p. Region (region (snd p)) =
                 getRegionFromCountry
                   (or_default (headers_get (headers request) ''cf-ipcountry'') ''US'')"
  have "(i, b) \<in> set (getHealthyBackends bs)"
  proof (cases "find ?P (getHealthyBackends bs)")
    case None
    with assms Cons have "first = (i, b)"
      by (simp add: selectBackend_def Let_def)
    with first show ?thesis by simp
  next
    case (Some p)
    with assms Cons have "p = (i, b)"
      by (simp add: selectBackend_def Let_def)
    with find_in_set [OF Some] show ?thesis by simp
  qed
  then show ?thesis
    by (simp add: in_getHealthyBackends)
qed

lemma cacheManager_get_frame:
  "backends (snd (cacheManager_get cc answer request w)) = backends w"
  "filter is_fetch_call (calls (snd (cacheManager_get cc answer request w)))
     = filter is_fetch_call (calls w)"
  by (simp_all add: cacheManager_get_def Let_def log_call_def bump_cacheHits_def
        bump_cacheMisses_def split: sum.splits option.splits)

lemma forward_fetch_fails:
  assumes "fetch_answer env = Inl message"
  shows "forward cfg env request opt_request i b w =
           (new_Response
              (Json (JObj [(''error'', JStr ''Backend error''),
                           (''message'', JStr message),
                           (''backend'', JStr (url b))]))
              502 [(''content-type'', ''application/json'')],
            w\<lparr>calls := calls w @ [Fetch (Relative (pathname request @ search request) (url b))
                                     (req_method opt_request) (headers opt_request)
                                     (req_body opt_request)],
              backends := (backends w)[i := (backends w ! i)\<lparr>healthy := False\<rparr>]\<rparr>)"
  using assms by (simp add: forward_def backend_error_def log_call_def)

lemma route_and_forward_fetch_fails:
  assumes fails: "fetch_answer env = Inl message"
      and fetched: "filter is_fetch_call (calls (snd (route_and_forward cfg env request w)))
                      \<noteq> filter is_fetch_call (calls w)"
  shows "\<exists>i b. selectBackend (backends w) request = Some (i, b)
           \<and> fst (route_and_forward cfg env request w) =
               Inr (new_Response
                      (Json (JObj [(''error'', JStr ''Backend error''),
                                   (''message'', JStr message),
                                   (''backend'', JStr (url b))]))
                      502 [(''content-type'', ''application/json'')])
           \<and> backends (snd (route_and_forward cfg env request w))
               = (backends w)[i := b\<lparr>healthy := False\<rparr>]
           \<and> filter is_fetch_call (calls (snd (route_and_forward cfg env request w)))
               = filter is_fetch_call (calls w)
                 @ [Fetch (Relative (pathname request @ search request) (url b))
                      (req_method request)
                      (optimizeHeaders (optimization cfg) (headers request))
                      (req_body request)]"
proof (cases "selectBackend (backends w) request")
  case None
  with fetched show ?thesis
    by (simp add: route_and_forward_def)
next
  case (Some p)
  obtain i b where p: "p = (i, b)" by (cases p)
  from selectBackend_index Some p have ib: "backends w ! i = b"
    by blast
  from fetched Some p have ok: "new_Request_error env = None" "new_URL_error env = None"
    by (auto simp: route_and_forward_def Let_def split: option.splits)
  with Some p ib show ?thesis
    by (simp add: route_and_forward_def Let_def forward_fetch_fails [OF fails]
          optimizeRequest_def)
qed

lemma limit_and_cache_fetch_fails:
  assumes fails: "fetch_answer env = Inl message"
      and fetched: "filter is_fetch_call (calls (snd (limit_and_cache cfg env request w)))
                      \<noteq> filter is_fetch_call (calls w)"
  shows "\<exists>i b. selectBackend (backends w) request = Some (i, b)
           \<and> fst (limit_and_cache cfg env request w) =
               Inr (new_Response
                      (Json (JObj [(''error'', JStr ''Backend error''),
                                   (''message'', JStr message),
                                   (''backend'', JStr (url b))]))
                      502 [(''content-type'', ''application/json'')])
           \<and> backends (snd (limit_and_cache cfg env request w))
               = (backends w)[i := b\<lparr>healthy := False\<rparr>]
           \<and> filter is_fetch_call (calls (snd (limit_and_cache cfg env request w)))
               = filter is_fetch_call (calls w)
                 @ [Fetch (Relative (pathname request @ search request) (url b))
                      (req_method request)
                      (optimizeHeaders (optimization cfg) (headers request))
                      (req_body request)]"
proof -
  define clientId where
    "clientId = or_default (headers_get (headers request) ''cf-connecting-ip'') ''unknown''"
  define lim where "lim = checkLimit (rateLimit cfg) (now_at_entry env) clientId (requests w)"
  define w1 where "w1 = w\<lparr>requests := snd lim\<rparr>"
  define got where "got = cacheManager_get (cache cfg) (cache_match_answer env) request w1"
  have unfold: "limit_and_cache cfg env request w =
      (if \<not> fst lim then (Inr (rate_limit_response (rateLimit cfg)), w1)
       else case fst got of
              Some cached \<Rightarrow> (Inr (cache_hit_response cached (snd got)), snd got)
            | None \<Rightarrow> route_and_forward cfg env request (snd got))"
    unfolding got_def w1_def lim_def clientId_def
    by (simp add: limit_and_cache_def Let_def case_prod_beta)
  have frame: "backends (snd got) = backends w"
              "filter is_fetch_call (calls (snd got)) = filter is_fetch_call (calls w)"
    by (simp_all add: got_def cacheManager_get_frame w1_def)
  from fetched unfold frame have route: "limit_and_cache cfg env request w
      = route_and_forward cfg env request (snd got)"
    by (auto simp: w1_def split: if_splits option.splits)
  with fetched frame have
    "filter is_fetch_call (calls (snd (route_and_forward cfg env request (snd got))))
       \<noteq> filter is_fetch_call (calls (snd got))"
    by simp
  from route_and_forward_fetch_fails [OF fails this] route frame show ?thesis
    by simp
qed

lemma cacheManager_put_frame:
  "metrics (cacheManager_put cc request resp w) = metrics w"
  "backends (cacheManager_put cc request resp w) = backends w"
  "connections (cacheManager_put cc request resp w) = connections w"
  by (simp_all add: cacheManager_put_def Let_def log_call_def)

lemma forward_metrics:
  "metrics (snd (forward cfg env request opt_request i b w)) = metrics w"
  by (simp add: forward_def Let_def backend_error_frame cacheManager_put_frame log_call_def
        split: sum.splits)

lemma route_and_forward_metrics:
  "metrics (snd (route_and_forward cfg env request w)) = metrics w"
  by (simp add: route_and_forward_def Let_def case_prod_beta forward_metrics
        split: option.splits)

lemma cacheManager_get_metrics:
  "totalRequests (metrics (snd (cacheManager_get cc answer request w))) = totalRequests (metrics w)"
  "activeConnections (metrics (snd (cacheManager_get cc answer request w)))
     = activeConnections (metrics w)"
  "cacheHits (metrics w) \<le> cacheHits (metrics (snd (cacheManager_get cc answer request w)))"
  "cacheMisses (metrics w) \<le> cacheMisses (metrics (snd (cacheManager_get cc answer request w)))"
  by (simp_all add: cacheManager_get_def Let_def log_call_def bump_cacheHits_def
        bump_cacheMisses_def split: sum.splits option.splits)

lemma limit_and_cache_metrics:
  "totalRequests (metrics (snd (limit_and_cache cfg env request w))) = totalRequests (metrics w)"
  "activeConnections (metrics (snd (limit_and_cache cfg env request w)))
     = activeConnections (metrics w)"
  "cacheHits (metrics w) \<le> cacheHits (metrics (snd (limit_and_cache cfg env request w)))"
  "cacheMisses (metrics w) \<le> cacheMisses (metrics (snd (limit_and_cache cfg env request w)))"
proof -
  define w1 where
    "w1 = w\<lparr>requests := snd (checkLimit (rateLimit cfg) (now_at_entry env)
               (or_default (headers_get (headers request) ''cf-connecting-ip'') ''unknown'')
               (requests w))\<rparr>"
  define got where "got = cacheManager_get (cache cfg) (cache_match_answer env) request w1"
  have m1: "metrics w1 = metrics w"
    by (simp add: w1_def)
  have cases: "snd (limit_and_cache cfg env request w) = w1
      \<or> snd (limit_and_cache cfg env request w) = snd got
      \<or> snd (limit_and_cache cfg env request w) = snd (route_and_forward cfg env request (snd got))"
    unfolding got_def w1_def
    by (simp add: limit_and_cache_def Let_def case_prod_beta split: option.splits)
  have g: "totalRequests (metrics (snd got)) = totalRequests (metrics w)"
          "activeConnections (metrics (snd got)) = activeConnections (metrics w)"
          "cacheHits (metrics w) \<le> cacheHits (metrics (snd got))"
          "cacheMisses (metrics w) \<le> cacheMisses (metrics (snd got))"
    using cacheManager_get_metrics
            [where cc = "cache cfg" and answer = "cache_match_answer env" and request = request
               and w = w1]
    by (simp_all add: got_def m1)
  from cases m1 g
  show "totalRequests (metrics (snd (limit_and_cache cfg env request w))) = totalRequests (metrics w)"
    by (auto simp: route_and_forward_metrics)
  from cases m1 g
  show "activeConnections (metrics (snd (limit_and_cache cfg env request w)))
     = activeConnections (metrics w)"
    by (auto simp: route_and_forward_metrics)
  from cases m1 g
  show "cacheHits (metrics w) \<le> cacheHits (metrics (snd (limit_and_cache cfg env request w)))"
    by (auto simp: route_and_forward_metrics)
  from cases m1 g
  show "cacheMisses (metrics w) \<le> cacheMisses (metrics (snd (limit_and_cache cfg env request w)))"
    by (auto simp: route_and_forward_metrics)
qed

lemma handleRequest_metrics:
  "totalRequests (metrics (snd (handleRequest cfg env request w))) = totalRequests (metrics w) + 1"
  "activeConnections (metrics (snd (handleRequest cfg env request w)))
     = activeConnections (metrics w)"
  "cacheHits (metrics w) \<le> cacheHits (metrics (snd (handleRequest cfg env request w)))"
  "cacheMisses (metrics w) \<le> cacheMisses (metrics (snd (handleRequest cfg env request w)))"
proof -
  define w0 where
    "w0 = w\<lparr>metrics := (metrics w)\<lparr>totalRequests := totalRequests (metrics w) + 1\<rparr>\<rparr>"
  have cases: "snd (handleRequest cfg env request w) = w0
      \<or> snd (handleRequest cfg env request w) = snd (handleWebSocket cfg request w0)
      \<or> snd (handleRequest cfg env request w) = snd (limit_and_cache cfg env request w0)"
    unfolding w0_def
    by (simp add: handleRequest_def Let_def case_prod_beta)
  have m0: "totalRequests (metrics w0) = totalRequests (metrics w) + 1"
           "activeConnections (metrics w0) = activeConnections (metrics w)"
           "cacheHits (metrics w0) = cacheHits (metrics w)"
           "cacheMisses (metrics w0) = cacheMisses (metrics w)"
    by (simp_all add: w0_def)
  note facts = handleWebSocket_frame(3) [where cfg = cfg and request = request and w = w0]
               limit_and_cache_metrics [where cfg = cfg and env = env and request = request and w = w0]
  from cases m0 facts
  show "totalRequests (metrics (snd (handleRequest cfg env request w))) = totalRequests (metrics w) + 1"
    by auto
  from cases m0 facts
  show "activeConnections (metrics (snd (handleRequest cfg env request w)))
     = activeConnections (metrics w)"
    by auto
  from cases m0 facts
  show "cacheHits (metrics w) \<le> cacheHits (metrics (snd (handleRequest cfg env request w)))"
    by auto
  from cases m0 facts
  show "cacheMisses (metrics w) \<le> cacheMisses (metrics (snd (handleRequest cfg env request w)))"
    by auto
qed

lemma updateHealthStatus_step_metrics:
  "metrics (updateHealthStatus_step probe i w) = metrics w"
  by (simp add: updateHealthStatus_step_def Let_def log_call_def)

lemma fold_updateHealthStatus_step_metrics:
  "metrics (fold (updateHealthStatus_step probe) is w) = metrics w"
  by (induction "is" arbitrary: w) (simp_all add: updateHealthStatus_step_metrics)

lemma handleScheduled_metrics:
  "metrics (handleScheduled cfg probe now w) = metrics w"
  by (simp add: handleScheduled_def Let_def updateHealthStatus_def
        fold_updateHealthStatus_step_metrics)

lemma socket_events_metrics:
  "metrics (server_send sid msg w) = metrics w"
  "metrics (clearInterval sid w) = metrics w"
  "metrics (keepAlive_tick sid now send_ok w) = metrics w"
  "metrics (ws_message sn sid now1 now2 parsed w) = metrics w"
  by (simp_all add: server_send_def clearInterval_def keepAlive_tick_def ws_message_def
        split: option.splits)

section \<open>Properties of the cache manager\<close>

text \<open>
  Claim C4. \<open>shouldCache\<close> is false exactly when the method is not \<open>GET\<close> or the path
  starts with a bypass prefix. For a request to a bypassed path, \<open>get\<close> returns nothing
  without calling the cache store, \<open>put\<close> does nothing, and however often the request is
  handled (whatever the runtime answers each time) the log gains no \<open>match\<close> or \<open>put\<close>
  call and the hit and miss counters stay as they were.
\<close>

theorem bypassed_requests_never_use_the_cache:
  "(shouldCache (cache cfg) request \<longleftrightarrow>
      \<not> (req_method request \<noteq> ''GET''
         \<or> (\<exists>p \<in> set (bypassPaths (cache cfg)). prefix p (pathname request))))
   \<and> ((\<exists>p \<in> set (bypassPaths (cache cfg)). prefix p (pathname request)) \<longrightarrow>
        cacheManager_get (cache cfg) answer request w = (None, w)
        \<and> cacheManager_put (cache cfg) request resp w = w
        \<and> filter is_cache_call (calls (handleRequest_repeated cfg envs request w))
            = filter is_cache_call (calls w)
        \<and> cacheHits (metrics (handleRequest_repeated cfg envs request w)) = cacheHits (metrics w)
        \<and> cacheMisses (metrics (handleRequest_repeated cfg envs request w))
            = cacheMisses (metrics w))"
proof -
  have iff: "shouldCache (cache cfg) request \<longleftrightarrow>
      \<not> (req_method request \<noteq> ''GET''
         \<or> (\<exists>p \<in> set (bypassPaths (cache cfg)). prefix p (pathname request)))"
    by (rule shouldCache_iff)
  have "cacheManager_get (cache cfg) answer request w = (None, w)
        \<and> cacheManager_put (cache cfg) request resp w = w
        \<and> filter is_cache_call (calls (handleRequest_repeated cfg envs request w))
            = filter is_cache_call (calls w)
        \<and> cacheHits (metrics (handleRequest_repeated cfg envs request w)) = cacheHits (metrics w)
        \<and> cacheMisses (metrics (handleRequest_repeated cfg envs request w))
            = cacheMisses (metrics w)"
    if "\<exists>p \<in> set (bypassPaths (cache cfg)). prefix p (pathname request)"
  proof -
    from that iff have no: "\<not> shouldCache (cache cfg) request"
      by blast
    from handleRequest_repeated_bypass [OF no] cacheManager_get_bypass [OF no]
         cacheManager_put_bypass [OF no]
    show ?thesis by simp
  qed
  with iff show ?thesis by blast
qed

theorem bypassed_requests_never_use_the_cache_witness:
  "(\<exists>p \<in> set (bypassPaths (cache CONFIG)).
       prefix p (pathname (GET ''/api/realtime/feed'' [(''cf-connecting-ip'', ''203.0.113.7'')])))
   \<and> filter is_cache_call
        (calls (handleRequest_repeated CONFIG
                  [runtime_answers (Inr (Some (new_Response (Text ''stale'') 200 [])))
                     (Inr (new_Response (Text ''fresh'') 200 [])),
                   runtime_answers (Inr (Some (new_Response (Text ''stale'') 200 [])))
                     (Inr (new_Response (Text ''fresh'') 200 []))]
                  (GET ''/api/realtime/feed'' [(''cf-connecting-ip'', ''203.0.113.7'')])
                  (initial_state CONFIG_backends)))
      = []
   \<and> map is_fetch_call
        (calls (handleRequest_repeated CONFIG
                  [runtime_answers (Inr (Some (new_Response (Text ''stale'') 200 [])))
                     (Inr (new_Response (Text ''fresh'') 200 [])),
                   runtime_answers (Inr (Some (new_Response (Text ''stale'') 200 [])))
                     (Inr (new_Response (Text ''fresh'') 200 []))]
                  (GET ''/api/realtime/feed'' [(''cf-connecting-ip'', ''203.0.113.7'')])
                  (initial_state CONFIG_backends)))
      = [True, True]"
proof -
  let ?rq = "GET ''/api/realtime/feed'' [(''cf-connecting-ip'', ''203.0.113.7'')]"
  let ?env = "runtime_answers (Inr (Some (new_Response (Text ''stale'') 200 [])))
                (Inr (new_Response (Text ''fresh'') 200 []))"
  have bypassed: "\<exists>p \<in> set (bypassPaths (cache CONFIG)). prefix p (pathname ?rq)"
    by (simp add: CONFIG_def GET_def)
  have forwarded:
    "map is_fetch_call
       (calls (handleRequest_repeated CONFIG [?env, ?env] ?rq (initial_state CONFIG_backends)))
     = [True, True]"
    by code_simp
  from bypassed_requests_never_use_the_cache
         [where cfg = CONFIG and request = ?rq and envs = "[?env, ?env]"
            and w = "initial_state CONFIG_backends"]
       bypassed
  have "filter is_cache_call
          (calls (handleRequest_repeated CONFIG [?env, ?env] ?rq (initial_state CONFIG_backends)))
        = filter is_cache_call (calls (initial_state CONFIG_backends))"
    by blast
  then have "filter is_cache_call
          (calls (handleRequest_repeated CONFIG [?env, ?env] ?rq (initial_state CONFIG_backends)))
        = []"
    by (simp add: initial_state_def)
  with bypassed forwarded show ?thesis
    by blast
qed

section \<open>Properties of the WebSocket handling\<close>

text \<open>
  Claim C10. A request for the path \<open>/ws\<close> whose \<open>Upgrade\<close> header is missing or is not
  exactly \<open>websocket\<close> is answered with status 426 and the body \<open>Expected WebSocket\<close>;
  apart from the request counter the state is unchanged: no session is added and no
  runtime call is made (no \<open>WebSocketPair\<close>, no interval).
\<close>

theorem ws_path_without_upgrade_gets_426:
  assumes "pathname request = ''/ws''"
      and "headers_get (headers request) ''Upgrade'' \<noteq> Some ''websocket''"
  shows "handleRequest cfg env request w =
           (Inr \<lparr>status = 426, statusText = [], resp_headers = [],
                 resp_body = Text ''Expected WebSocket'', webSocket = None\<rparr>,
            w\<lparr>metrics := (metrics w)\<lparr>totalRequests := totalRequests (metrics w) + 1\<rparr>\<rparr>)
         \<and> sessions (snd (handleRequest cfg env request w)) = sessions w
         \<and> calls (snd (handleRequest cfg env request w)) = calls w"
  using assms
  by (simp add: handleRequest_def Let_def handleWebSocket_refused new_Response_def)

theorem ws_path_without_upgrade_gets_426_witness:
  "pathname (GET ''/ws'' [(''Upgrade'', ''WebSocket'')]) = ''/ws''
   \<and> headers_get (headers (GET ''/ws'' [(''Upgrade'', ''WebSocket'')])) ''Upgrade''
       \<noteq> Some ''websocket''
   \<and> fst (handleRequest CONFIG (runtime_answers (Inr None) (Inl ''unused''))
            (GET ''/ws'' [(''Upgrade'', ''WebSocket'')]) (initial_state CONFIG_backends))
       = Inr \<lparr>status = 426, statusText = [], resp_headers = [],
              resp_body = Text ''Expected WebSocket'', webSocket = None\<rparr>
   \<and> sessions (snd (handleRequest CONFIG (runtime_answers (Inr None) (Inl ''unused''))
                      (GET ''/ws'' [(''Upgrade'', ''WebSocket'')]) (initial_state CONFIG_backends)))
       = []
   \<and> calls (snd (handleRequest CONFIG (runtime_answers (Inr None) (Inl ''unused''))
                   (GET ''/ws'' [(''Upgrade'', ''WebSocket'')]) (initial_state CONFIG_backends)))
       = []"
proof -
  let ?rq = "GET ''/ws'' [(''Upgrade'', ''WebSocket'')]"
  have path: "pathname ?rq = ''/ws''"
    by (simp add: GET_def)
  have hdr: "headers_get (headers ?rq) ''Upgrade'' \<noteq> Some ''websocket''"
    by code_simp
  from ws_path_without_upgrade_gets_426
         [OF path hdr, where cfg = CONFIG and env = "runtime_answers (Inr None) (Inl ''unused'')"
            and w = "initial_state CONFIG_backends"]
       path hdr
  show ?thesis
    by (simp add: initial_state_def)
qed

text \<open>
  A timestamp that is absent, a number, a string, a boolean or \<open>null\<close>, or an object
  or array without an own \<open>toString\<close> property inside, converts without an error.
\<close>

lemma ToNumber_defined:
  assumes "case ts of None \<Rightarrow> True | Some v \<Rightarrow> \<not> ToPrimitive_throws v"
  shows "\<exists>t. ToNumber sn ts = Inr t"
proof (cases ts)
  case None
  then show ?thesis by simp
next
  case (Some v)
  with assms show ?thesis
    by (cases v) simp_all
qed

text \<open>
  Claim C9. An application message (one that parses to a value other than \<open>null\<close>,
  whose \<open>type\<close> is not \<open>pong\<close> and whose \<open>timestamp\<close>, if it has one, converts to a
  number without an error) is answered with an envelope of exactly the fields
  \<open>type = response\<close>, \<open>data\<close> (the whole parsed message), \<open>timestamp\<close> and \<open>latency\<close>;
  \<open>latency\<close> is the second clock reading minus the message's timestamp when that is a
  number, and \<open>null\<close> when the message has none. The envelope is the one message
  sent on the session for it.
\<close>

theorem application_message_gets_response_envelope:
  assumes "get_field data ''type'' = Inr ty"
      and "ty \<noteq> Some (JStr ''pong'')"
      and "get_field data ''timestamp'' = Inr ts"
      and "ToNumber sn ts = Inr t"
  shows "onMessage sn now1 now2 (Inr data) =
           Some (JObj [(''type'', JStr ''response''),
                       (''data'', data),
                       (''timestamp'', JNum now1),
                       (''latency'', number_json (map_option (\<lambda>k. now2 - k) t))])
         \<and> (\<forall>n. ts = Some (JNum n) \<longrightarrow>
               number_json (map_option (\<lambda>k. now2 - k) t) = JNum (now2 - n))
         \<and> (ts = None \<longrightarrow> number_json (map_option (\<lambda>k. now2 - k) t) = JNull)
         \<and> (sid < length (sessions w) \<longrightarrow>
               sent (sessions (ws_message sn sid now1 now2 (Inr data) w) ! sid)
                 = sent (sessions w ! sid)
                   @ [JObj [(''type'', JStr ''response''),
                            (''data'', data),
                            (''timestamp'', JNum now1),
                            (''latency'', number_json (map_option (\<lambda>k. now2 - k) t))]])"
proof -
  have reply: "onMessage sn now1 now2 (Inr data) =
           Some (JObj [(''type'', JStr ''response''),
                       (''data'', data),
                       (''timestamp'', JNum now1),
                       (''latency'', number_json (map_option (\<lambda>k. now2 - k) t))])"
    using assms by (simp add: onMessage_def)
  have latency: "\<forall>n. ts = Some (JNum n) \<longrightarrow>
               number_json (map_option (\<lambda>k. now2 - k) t) = JNum (now2 - n)"
    using assms(4) by (auto simp: number_json_def)
  have absent: "ts = None \<longrightarrow> number_json (map_option (\<lambda>k. now2 - k) t) = JNull"
    using assms(4) by (auto simp: number_json_def)
  have sent_once: "sid < length (sessions w) \<longrightarrow>
               sent (sessions (ws_message sn sid now1 now2 (Inr data) w) ! sid)
                 = sent (sessions w ! sid)
                   @ [JObj [(''type'', JStr ''response''),
                            (''data'', data),
                            (''timestamp'', JNum now1),
                            (''latency'', number_json (map_option (\<lambda>k. now2 - k) t))]]"
    by (simp add: ws_message_def reply server_send_def)
  from reply latency absent sent_once show ?thesis
    by blast
qed

theorem application_message_gets_response_envelope_witness:
  "get_field (JObj [(''type'', JStr ''message''), (''data'', JStr ''hello''),
                    (''timestamp'', JNum 990)]) ''type'' = Inr (Some (JStr ''message''))
   \<and> Some (JStr ''message'') \<noteq> Some (JStr ''pong'')
   \<and> get_field (JObj [(''type'', JStr ''message''), (''data'', JStr ''hello''),
                      (''timestamp'', JNum 990)]) ''timestamp'' = Inr (Some (JNum 990))
   \<and> ToNumber (\<lambda>v. None) (Some (JNum 990)) = Inr (Some 990)
   \<and> onMessage (\<lambda>v. None) 1000 1001
        (Inr (JObj [(''type'', JStr ''message''), (''data'', JStr ''hello''),
                    (''timestamp'', JNum 990)]))
      = Some (JObj [(''type'', JStr ''response''),
                    (''data'', JObj [(''type'', JStr ''message''), (''data'', JStr ''hello''),
                                     (''timestamp'', JNum 990)]),
                    (''timestamp'', JNum 1000),
                    (''latency'', JNum 11)])"
proof -
  let ?msg = "JObj [(''type'', JStr ''message''), (''data'', JStr ''hello''),
                    (''timestamp'', JNum 990)]"
  have ty: "get_field ?msg ''type'' = Inr (Some (JStr ''message''))"
    by simp
  have np: "Some (JStr ''message'') \<noteq> Some (JStr ''pong'')"
    by simp
  have ts: "get_field ?msg ''timestamp'' = Inr (Some (JNum 990))"
    by simp
  have num: "ToNumber (\<lambda>v. None) (Some (JNum 990)) = Inr (Some 990)"
    by simp
  from application_message_gets_response_envelope
         [OF ty np ts num, where ?now1.0 = 1000 and ?now2.0 = 1001]
  have "onMessage (\<lambda>v. None) 1000 1001 (Inr ?msg)
      = Some (JObj [(''type'', JStr ''response''), (''data'', ?msg),
                    (''timestamp'', JNum 1000), (''latency'', JNum 11)])"
    by (simp add: number_json_def)
  with ty np ts num show ?thesis
    by blast
qed

text \<open>
  A malformed payload is answered with an error envelope and the session goes on: here
  the \<open>timestamp\<close> is an object on which the subtraction throws.
\<close>

lemma malformed_timestamp_gets_error_envelope:
  "get_field (JObj [(''type'', JStr ''message''),
                    (''timestamp'', JObj [(''toString'', JNum 1)])]) ''type''
     = Inr (Some (JStr ''message''))
   \<and> onMessage (\<lambda>v. None) 1000 1001
        (Inr (JObj [(''type'', JStr ''message''),
                    (''timestamp'', JObj [(''toString'', JNum 1)])]))
      = Some (JObj [(''type'', JStr ''error''),
                    (''error'', JStr ''Cannot convert object to primitive value'')])"
  by (simp add: onMessage_def error_envelope_def)

section \<open>Forward failure\<close>

text \<open>
  Claim C5. When the handler calls \<open>fetch\<close> for a request and the \<open>fetch\<close> fails with a
  message, a backend was selected, the result is a 502 response whose JSON body has the
  fields \<open>error\<close>, \<open>message\<close> (the failure's message) and \<open>backend\<close> (the selected
  backend's url), the selected backend's \<open>healthy\<close> flag is false afterwards and no other
  backend changed, and exactly one \<open>fetch\<close> was made, to the selected backend.
\<close>

theorem failed_forward_marks_backend_and_answers_502:
  assumes fails: "fetch_answer env = Inl message"
      and fetched: "filter is_fetch_call (calls (snd (handleRequest cfg env request w)))
                      \<noteq> filter is_fetch_call (calls w)"
  shows "\<exists>i b. selectBackend (backends w) request = Some (i, b)
           \<and> fst (handleRequest cfg env request w) =
               Inr \<lparr>status = 502, statusText = [],
                    resp_headers = [(''content-type'', ''application/json'')],
                    resp_body = Json (JObj [(''error'', JStr ''Backend error''),
                                            (''message'', JStr message),
                                            (''backend'', JStr (url b))]),
                    webSocket = None\<rparr>
           \<and> backends (snd (handleRequest cfg env request w))
               = (backends w)[i := b\<lparr>healthy := False\<rparr>]
           \<and> \<not> healthy (backends (snd (handleRequest cfg env request w)) ! i)
           \<and> filter is_fetch_call (calls (snd (handleRequest cfg env request w)))
               = filter is_fetch_call (calls w)
                 @ [Fetch (Relative (pathname request @ search request) (url b))
                      (req_method request)
                      (optimizeHeaders (optimization cfg) (headers request))
                      (req_body request)]"
proof -
  define w0 where
    "w0 = w\<lparr>metrics := (metrics w)\<lparr>totalRequests := totalRequests (metrics w) + 1\<rparr>\<rparr>"
  have w0: "backends w0 = backends w" "calls w0 = calls w"
    by (simp_all add: w0_def)
  from fetched have branch: "handleRequest cfg env request w = limit_and_cache cfg env request w0"
    by (auto simp: handleRequest_def Let_def w0_def case_prod_beta handleWebSocket_frame
             split: if_splits)
  with fetched w0 have
    "filter is_fetch_call (calls (snd (limit_and_cache cfg env request w0)))
       \<noteq> filter is_fetch_call (calls w0)"
    by simp
  from limit_and_cache_fetch_fails [OF fails this] obtain i b where
    sel: "selectBackend (backends w) request = Some (i, b)"
    and rest: "fst (handleRequest cfg env request w) =
               Inr (new_Response
                      (Json (JObj [(''error'', JStr ''Backend error''),
                                   (''message'', JStr message),
                                   (''backend'', JStr (url b))]))
                      502 [(''content-type'', ''application/json'')])"
      "backends (snd (handleRequest cfg env request w)) = (backends w)[i := b\<lparr>healthy := False\<rparr>]"
      "filter is_fetch_call (calls (snd (handleRequest cfg env request w)))
               = filter is_fetch_call (calls w)
                 @ [Fetch (Relative (pathname request @ search request) (url b))
                      (req_method request)
                      (optimizeHeaders (optimization cfg) (headers request))
                      (req_body request)]"
    using branch w0 by auto
  from selectBackend_index [OF sel] have "i < length (backends w)"
    by simp
  with rest(2) have "\<not> healthy (backends (snd (handleRequest cfg env request w)) ! i)"
    by simp
  with sel rest show ?thesis
    by (simp add: new_Response_def)
qed

theorem failed_forward_marks_backend_and_answers_502_witness:
  "fetch_answer (runtime_answers (Inr None) (Inl ''connection refused'')) = Inl ''connection refused''
   \<and> filter is_fetch_call
        (calls (snd (handleRequest CONFIG (runtime_answers (Inr None) (Inl ''connection refused''))
                       (GET ''/api/data'' [(''cf-ipcountry'', ''US'')])
                       (initial_state CONFIG_backends))))
      \<noteq> filter is_fetch_call (calls (initial_state CONFIG_backends))
   \<and> fst (handleRequest CONFIG (runtime_answers (Inr None) (Inl ''connection refused''))
            (GET ''/api/data'' [(''cf-ipcountry'', ''US'')]) (initial_state CONFIG_backends))
      = Inr \<lparr>status = 502, statusText = [],
             resp_headers = [(''content-type'', ''application/json'')],
             resp_body = Json (JObj [(''error'', JStr ''Backend error''),
                                     (''message'', JStr ''connection refused''),
                                     (''backend'', JStr ''https://api.example.com'')]),
             webSocket = None\<rparr>
   \<and> map healthy
        (backends (snd (handleRequest CONFIG (runtime_answers (Inr None) (Inl ''connection refused''))
                          (GET ''/api/data'' [(''cf-ipcountry'', ''US'')])
                          (initial_state CONFIG_backends))))
      = [False, True]"
proof -
  let ?env = "runtime_answers (Inr None) (Inl ''connection refused'')"
  let ?rq = "GET ''/api/data'' [(''cf-ipcountry'', ''US'')]"
  let ?w = "initial_state CONFIG_backends"
  have fails: "fetch_answer ?env = Inl ''connection refused''"
    by (simp add: runtime_answers_def)
  have fetched:
    "filter is_fetch_call (calls (snd (handleRequest CONFIG ?env ?rq ?w)))
       \<noteq> filter is_fetch_call (calls ?w)"
    by code_simp
  have sel: "selectBackend (backends ?w) ?rq
               = Some (0, \<lparr>url = ''https://api.example.com'', priority = 1,
                           region = ''us-east'', healthy = True\<rparr>)"
    by code_simp
  from failed_forward_marks_backend_and_answers_502 [OF fails fetched] sel
  have "fst (handleRequest CONFIG ?env ?rq ?w)
      = Inr \<lparr>status = 502, statusText = [],
             resp_headers = [(''content-type'', ''application/json'')],
             resp_body = Json (JObj [(''error'', JStr ''Backend error''),
                                     (''message'', JStr ''connection refused''),
                                     (''backend'', JStr ''https://api.example.com'')]),
             webSocket = None\<rparr>
     \<and> map healthy (backends (snd (handleRequest CONFIG ?env ?rq ?w))) = [False, True]"
    by (auto simp: initial_state_def CONFIG_backends_def)
  with fails fetched show ?thesis
    by blast
qed

section \<open>Metrics\<close>

text \<open>
  Claim C2. Under every operation of an instance no field of the metrics record
  (\<open>totalRequests\<close>, \<open>cacheHits\<close>, \<open>cacheMisses\<close>, \<open>activeConnections\<close>) decreases, and
  \<open>totalRequests\<close> grows by exactly one in every run of the request handler, whatever
  its outcome (health and metrics pages, WebSocket dispatch, denial, cache hit, miss,
  backend error, an exception that leaves the handler), and by nothing else.
\<close>

theorem metrics_never_decrease_and_totalRequests_counts_requests:
  "totalRequests (metrics w) \<le> totalRequests (metrics (step cfg sn operation w))
   \<and> cacheHits (metrics w) \<le> cacheHits (metrics (step cfg sn operation w))
   \<and> cacheMisses (metrics w) \<le> cacheMisses (metrics (step cfg sn operation w))
   \<and> activeConnections (metrics w) \<le> activeConnections (metrics (step cfg sn operation w))
   \<and> (if is_inbound operation
      then totalRequests (metrics (step cfg sn operation w)) = totalRequests (metrics w) + 1
      else totalRequests (metrics (step cfg sn operation w)) = totalRequests (metrics w))
   \<and> totalRequests (metrics (snd (handleRequest cfg env request w)))
       = totalRequests (metrics w) + 1"
proof -
  have handler: "totalRequests (metrics (snd (handleRequest cfg env request w)))
       = totalRequests (metrics w) + 1"
    by (rule handleRequest_metrics(1))
  have steps:
    "totalRequests (metrics w) \<le> totalRequests (metrics (step cfg sn operation w))
     \<and> cacheHits (metrics w) \<le> cacheHits (metrics (step cfg sn operation w))
     \<and> cacheMisses (metrics w) \<le> cacheMisses (metrics (step cfg sn operation w))
     \<and> activeConnections (metrics w) \<le> activeConnections (metrics (step cfg sn operation w))
     \<and> (if is_inbound operation
        then totalRequests (metrics (step cfg sn operation w)) = totalRequests (metrics w) + 1
        else totalRequests (metrics (step cfg sn operation w)) = totalRequests (metrics w))"
  proof (cases operation)
    case (Inbound env' request')
    then show ?thesis
      using handleRequest_metrics
              [where cfg = cfg and env = env' and request = request' and w = w]
      by simp
  next
    case (Scheduled probe now)
    then show ?thesis
      by (simp add: handleScheduled_metrics)
  next
    case (KeepAliveTick sid now send_ok)
    then show ?thesis
      by (simp add: socket_events_metrics)
  next
    case (SocketMessage sid now1 now2 parsed)
    then show ?thesis
      by (simp add: socket_events_metrics)
  next
    case (SocketClose sid)
    then show ?thesis
      by (simp add: socket_events_metrics)
  qed
  from steps handler show ?thesis
    by blast
qed

theorem metrics_never_decrease_and_totalRequests_counts_requests_witness:
  "totalRequests
     (metrics (step CONFIG (\<lambda>v. None)
                 (Inbound (runtime_answers (Inr None) (Inl ''connection refused''))
                    (GET ''/api/data'' [(''cf-ipcountry'', ''US'')]))
                 (initial_state CONFIG_backends)))
   = 1"
  using metrics_never_decrease_and_totalRequests_counts_requests
          [where cfg = CONFIG and sn = "\<lambda>v. None"
             and operation = "Inbound (runtime_answers (Inr None) (Inl ''connection refused''))
                                (GET ''/api/data'' [(''cf-ipcountry'', ''US'')])"
             and w = "initial_state CONFIG_backends"]
  by (simp add: initial_state_def)

end
